theory Spec2Isabelle
  imports Main "HOL-Library.Word"
begin

unbundle bit_operations_syntax

section \<open>A shallow embedding of the allocator in \<^verbatim>\<open>allocator.c\<close>\<close>

text \<open>
  The allocator keeps its bookkeeping inside the memory it hands out: every block
  starts with a \<^verbatim>\<open>struct mem_block\<close> header, every mapping with a
  \<^verbatim>\<open>struct mem_region\<close> header, and three global pointers hold the region
  list and the free list. The embedding follows that design.

  \<^item> \<^verbatim>\<open>size_t\<close>, \<^verbatim>\<open>unsigned long\<close> and pointers are 64-bit words:
    \<open>+\<close>, \<open>-\<close> and \<open>*\<close> wrap around as they do in C, \<open>NULL\<close> is \<open>0\<close>.
  \<^item> Memory is a store of headers indexed by address (one function from addresses
    to \<^verbatim>\<open>struct mem_block\<close> values and one to \<^verbatim>\<open>struct mem_region\<close>
    values), next to a byte view for payload. A field assignment \<^verbatim>\<open>p->f = v\<close>
    updates the header stored at \<open>p\<close>.
  \<^item> \<^verbatim>\<open>allocator.h\<close>, which declares the two structs, is not among the sources.
    Their sizes and field offsets, and the page size, are therefore parameters
    (record \<open>platform\<close>). The offsets are used in one place only: to work out
    which header fields a byte-wise \<^verbatim>\<open>memset\<close> overwrites; the capacity of the
    \<^verbatim>\<open>name\<close> array only to say that a tag fits into it.
  \<^item> A loop over a pointer chain need not terminate (a chain can be cyclic), so each
    loop is a \<^theory_text>\<open>partial_function\<close> in the option monad: \<open>None\<close> means that
    the loop does not return.
  \<^item> Dereferencing a null pointer is the outcome \<open>Segfault\<close>. Every other address
    is taken to be readable and writable, and headers stored at different addresses do
    not share bytes. A theorem about all states therefore assumes what makes this true
    of the running program: the memory the call touches lies inside a mapping the
    allocator holds (\<open>mapped\<close>), and the blocks involved do not overlap.
  \<^item> \<^verbatim>\<open>mmap\<close> is an answer of the operating system: the caller of the model
    supplies it (\<open>None\<close> for \<^verbatim>\<open>MAP_FAILED\<close>). \<^verbatim>\<open>munmap\<close> requests are
    recorded with their arguments in the order they are made.
  \<^item> The mutexes, \<^verbatim>\<open>LOG\<close> and \<^verbatim>\<open>perror\<close> have no effect on the state
    of a single-threaded run and are left out.
\<close>

type_synonym addr = "64 word"
type_synonym size_t = "64 word"
type_synonym byte = "8 word"

subsection \<open>Platform parameters\<close>

record platform =
  sizeof_mem_block :: size_t
  sizeof_mem_region :: size_t
  pagesize :: size_t
  off_block_number :: size_t
  off_size :: size_t
  off_free :: size_t
  off_prev_block :: size_t
  off_next_block :: size_t
  off_next_free :: size_t
  off_region_number :: size_t
  off_next_region :: size_t
  sizeof_name :: size_t

text \<open>
  An example platform, used wherever the code is run on concrete inputs: LP64 with 4 KiB
  pages, \<^verbatim>\<open>struct mem_block\<close> laid out as
  \<^verbatim>\<open>{unsigned long block_number; char name[32]; size_t size; bool free;
  struct mem_block *prev_block, *next_block, *next_free;}\<close> (80 bytes) and
  \<^verbatim>\<open>struct mem_region\<close> as
  \<^verbatim>\<open>{unsigned long region_number; struct mem_region *next_region;}\<close> (16 bytes).
\<close>

definition lp64 :: platform where
  "lp64 = \<lparr> sizeof_mem_block = 80, sizeof_mem_region = 16, pagesize = 4096,
            off_block_number = 0, off_size = 40, off_free = 48, off_prev_block = 56,
            off_next_block = 64, off_next_free = 72,
            off_region_number = 0, off_next_region = 8, sizeof_name = 32 \<rparr>"

subsection \<open>Environment\<close>

record env =
  ALLOCATOR_ALGORITHM :: "string option"
  ALLOCATOR_SCRIBBLE :: "string option"

text \<open>
  \<^verbatim>\<open>atoi\<close>: leading white space, an optional sign, then decimal digits. A value
  that does not fit is what glibc makes of it, \<^verbatim>\<open>(int) strtol(str, NULL, 10)\<close>:
  \<^verbatim>\<open>strtol\<close> stops at the bounds of \<^verbatim>\<open>long\<close>, and the cast keeps the low 32
  bits.
\<close>

definition isspace :: "char \<Rightarrow> bool" where
  "isspace c = (let n = (of_char c :: nat) in n = 32 \<or> (9 \<le> n \<and> n \<le> 13))"

definition isdigit :: "char \<Rightarrow> bool" where
  "isdigit c = (let n = (of_char c :: nat) in 48 \<le> n \<and> n \<le> 57)"

fun atoi_digits :: "string \<Rightarrow> int \<Rightarrow> int" where
  "atoi_digits [] acc = acc"
| "atoi_digits (c # cs) acc =
     (if isdigit c then atoi_digits cs (10 * acc + (of_char c - 48)) else acc)"

definition strtol :: "string \<Rightarrow> int" where
  "strtol str =
     (let v = (case dropWhile isspace str of
                 [] \<Rightarrow> 0
               | c # cs \<Rightarrow>
                   if c = CHR ''-'' then - atoi_digits cs 0
                   else if c = CHR ''+'' then atoi_digits cs 0
                   else atoi_digits (c # cs) 0)
      in max (- (2 ^ 63)) (min (2 ^ 63 - 1) v))"

definition atoi :: "string \<Rightarrow> int" where
  "atoi str = sint (word_of_int (strtol str) :: 32 word)"

subsection \<open>Headers and the allocator state\<close>

text \<open>
  The fields of \<^verbatim>\<open>struct mem_block\<close> that the code uses. The C field
  \<^verbatim>\<open>size\<close> is \<open>size_b\<close> here; \<^verbatim>\<open>free\<close> is the byte that holds the
  \<^verbatim>\<open>bool\<close> (\<open>1\<close> for \<^verbatim>\<open>true\<close>), since a byte fill can leave any
  value in it.
\<close>

record mem_block =
  block_number :: "64 word"
  name :: string
  size_b :: size_t
  free :: byte
  prev_block :: addr
  next_block :: addr
  next_free :: addr

record mem_region =
  region_number :: "64 word"
  next_region :: addr

record state =
  g_regions :: "64 word"
  g_allocations :: "64 word"
  g_region_head :: addr
  g_region_tail :: addr
  g_free_list :: addr
  blocks :: "addr \<Rightarrow> mem_block"
  regions :: "addr \<Rightarrow> mem_region"
  bytes :: "addr \<Rightarrow> byte"
  mmaps :: "(addr \<times> size_t) list"
  munmaps :: "(addr \<times> size_t) list"

datatype 'a outcome = Returns 'a | Segfault

definition zero_block :: mem_block where
  "zero_block = \<lparr> block_number = 0, name = [], size_b = 0, free = 0,
                  prev_block = 0, next_block = 0, next_free = 0 \<rparr>"

definition zero_region :: mem_region where
  "zero_region = \<lparr> region_number = 0, next_region = 0 \<rparr>"

text \<open>The state of a process that has not called the allocator yet.\<close>

definition init_state :: state where
  "init_state = \<lparr> g_regions = 0, g_allocations = 0, g_region_head = 0, g_region_tail = 0,
                  g_free_list = 0, blocks = (\<lambda>_. zero_block), regions = (\<lambda>_. zero_region),
                  bytes = (\<lambda>_. 0), mmaps = [], munmaps = [] \<rparr>"

text \<open>\<^verbatim>\<open>p->f = v\<close> for a block header and for a region header.\<close>

definition upd_block :: "addr \<Rightarrow> (mem_block \<Rightarrow> mem_block) \<Rightarrow> state \<Rightarrow> state" where
  "upd_block p f s = s\<lparr>blocks := (blocks s)(p := f (blocks s p))\<rparr>"

definition upd_region :: "addr \<Rightarrow> (mem_region \<Rightarrow> mem_region) \<Rightarrow> state \<Rightarrow> state" where
  "upd_region p f s = s\<lparr>regions := (regions s)(p := f (regions s p))\<rparr>"

subsection \<open>Byte fills\<close>

text \<open>
  \<open>in_range dst n x\<close>: address \<open>x\<close> is one of the \<open>n\<close> bytes starting at
  \<open>dst\<close>.
\<close>

definition in_range :: "addr \<Rightarrow> size_t \<Rightarrow> addr \<Rightarrow> bool" where
  "in_range dst n x = (x - dst < n)"

text \<open>
  The value of an 8-byte little-endian field stored at address \<open>p\<close>, holding \<open>w\<close>,
  after the bytes of the range have been set to \<open>v\<close>.
\<close>

definition fill_byte :: "addr \<Rightarrow> size_t \<Rightarrow> byte \<Rightarrow> addr \<Rightarrow> nat \<Rightarrow> 64 word \<Rightarrow> 64 word" where
  "fill_byte dst n v p k w =
     (if in_range dst n (p + of_nat k)
      then (w AND NOT (push_bit (8 * k) 0xFF)) OR push_bit (8 * k) (ucast v)
      else w)"

definition fill64 :: "addr \<Rightarrow> size_t \<Rightarrow> byte \<Rightarrow> addr \<Rightarrow> 64 word \<Rightarrow> 64 word" where
  "fill64 dst n v p w = fold (fill_byte dst n v p) [0, 1, 2, 3, 4, 5, 6, 7] w"

definition fill8 :: "addr \<Rightarrow> size_t \<Rightarrow> byte \<Rightarrow> addr \<Rightarrow> byte \<Rightarrow> byte" where
  "fill8 dst n v p w = (if in_range dst n p then v else w)"

definition fill_block :: "platform \<Rightarrow> addr \<Rightarrow> size_t \<Rightarrow> byte \<Rightarrow> addr \<Rightarrow> mem_block \<Rightarrow> mem_block" where
  "fill_block P dst n v a b =
     b\<lparr> block_number := fill64 dst n v (a + off_block_number P) (block_number b),
        size_b := fill64 dst n v (a + off_size P) (size_b b),
        free := fill8 dst n v (a + off_free P) (free b),
        prev_block := fill64 dst n v (a + off_prev_block P) (prev_block b),
        next_block := fill64 dst n v (a + off_next_block P) (next_block b),
        next_free := fill64 dst n v (a + off_next_free P) (next_free b) \<rparr>"

definition fill_region :: "platform \<Rightarrow> addr \<Rightarrow> size_t \<Rightarrow> byte \<Rightarrow> addr \<Rightarrow> mem_region \<Rightarrow> mem_region" where
  "fill_region P dst n v a r =
     r\<lparr> region_number := fill64 dst n v (a + off_region_number P) (region_number r),
        next_region := fill64 dst n v (a + off_next_region P) (next_region r) \<rparr>"

text \<open>
  Stores after a write to a whole address range: \<open>range_upd\<close> puts the same value
  at every address of the range, \<open>fill_blocks\<close> and \<open>fill_regions\<close> apply a byte
  fill to the header stored at each address.
\<close>

definition range_upd :: "addr \<Rightarrow> size_t \<Rightarrow> 'a \<Rightarrow> (addr \<Rightarrow> 'a) \<Rightarrow> addr \<Rightarrow> 'a" where
  "range_upd dst n v f a = (if in_range dst n a then v else f a)"

definition fill_blocks :: "platform \<Rightarrow> addr \<Rightarrow> size_t \<Rightarrow> byte \<Rightarrow> (addr \<Rightarrow> mem_block)
    \<Rightarrow> addr \<Rightarrow> mem_block" where
  "fill_blocks P dst n v f a = fill_block P dst n v a (f a)"

definition fill_regions :: "platform \<Rightarrow> addr \<Rightarrow> size_t \<Rightarrow> byte \<Rightarrow> (addr \<Rightarrow> mem_region)
    \<Rightarrow> addr \<Rightarrow> mem_region" where
  "fill_regions P dst n v f a = fill_region P dst n v a (f a)"

text \<open>
  \<^verbatim>\<open>memset(dst, v, n)\<close>: the \<open>n\<close> bytes from \<open>dst\<close> become \<open>v\<close>, in the
  byte view and in every header field that lies in the range. (The text of
  \<^verbatim>\<open>name\<close> is not followed through a fill.)
\<close>

definition memset :: "platform \<Rightarrow> addr \<Rightarrow> byte \<Rightarrow> size_t \<Rightarrow> state \<Rightarrow> state" where
  "memset P dst v n s =
     s\<lparr> bytes := range_upd dst n v (bytes s),
        blocks := fill_blocks P dst n v (blocks s),
        regions := fill_regions P dst n v (regions s) \<rparr>"

text \<open>
  A successful anonymous \<^verbatim>\<open>mmap\<close> of \<open>len\<close> bytes at \<open>base\<close>: the new
  pages read as zero, and the mapping is recorded.
\<close>

definition mmap_fresh :: "addr \<Rightarrow> size_t \<Rightarrow> state \<Rightarrow> state" where
  "mmap_fresh base len s =
     s\<lparr> bytes := range_upd base len 0 (bytes s),
        blocks := range_upd base len zero_block (blocks s),
        regions := range_upd base len zero_region (regions s),
        mmaps := mmaps s @ [(base, len)] \<rparr>"

subsection \<open>Alignment\<close>

definition ALIGN_SZ :: size_t where
  "ALIGN_SZ = 8"

text \<open>
  \<^verbatim>\<open>align\<close>. Every call in the source passes a non-zero alignment
  (\<^verbatim>\<open>ALIGN_SZ\<close> or the page size); a zero alignment would trap in C and is
  outside the theorems below.
\<close>

definition align :: "size_t \<Rightarrow> size_t \<Rightarrow> size_t" where
  "align orig_sz alignment =
     (let new_sz = (orig_sz div alignment) * alignment
      in if orig_sz mod alignment \<noteq> 0 then new_sz + alignment else new_sz)"

subsection \<open>Split\<close>

definition split_block :: "platform \<Rightarrow> addr \<Rightarrow> size_t \<Rightarrow> state \<Rightarrow> addr \<times> state" where
  "split_block P block sz s =
     (if block \<noteq> 0 \<and> 0 < sz \<and> sz + sizeof_mem_block P < size_b (blocks s block) then
        let updated_sz = size_b (blocks s block) - sz in
        if sz < sizeof_mem_block P + ALIGN_SZ then (0, s)
        else if updated_sz < sizeof_mem_block P + ALIGN_SZ then (0, s)
        else
          let new_block = block + (size_b (blocks s block) - sz);
              s1 = upd_block new_block (\<lambda>b. b\<lparr>size_b := sz\<rparr>) s;
              s2 = upd_block new_block (\<lambda>b. b\<lparr>block_number := g_allocations s1\<rparr>) s1;
              s3 = s2\<lparr>g_allocations := g_allocations s2 + 1\<rparr>;
              s4 = upd_block new_block (\<lambda>b. b\<lparr>free := 1\<rparr>) s3;
              s5 = upd_block new_block (\<lambda>b. b\<lparr>prev_block := block\<rparr>) s4;
              s6 = upd_block new_block (\<lambda>b. b\<lparr>next_block := next_block (blocks s5 block)\<rparr>) s5;
              s7 = upd_block new_block (\<lambda>b. b\<lparr>size_b := sz\<rparr>) s6;
              s8 = upd_block block (\<lambda>b. b\<lparr>next_block := new_block\<rparr>) s7;
              s9 = upd_block block (\<lambda>b. b\<lparr>size_b := updated_sz\<rparr>) s8
          in (new_block, s9)
      else (0, s))"

subsection \<open>Merge\<close>

text \<open>The two loops of \<^verbatim>\<open>merge_block\<close>, each with the loop variables it updates.\<close>

partial_function (option) merge_prev_loop :: "addr \<Rightarrow> addr \<Rightarrow> state \<Rightarrow> (addr \<times> state) option" where
  "merge_prev_loop block prev_merge s =
     (if prev_merge \<noteq> 0 \<and> free (blocks s prev_merge) = 1 then
        merge_prev_loop prev_merge
          (prev_block (blocks s prev_merge))
          (upd_block prev_merge (\<lambda>b. b\<lparr>next_block := next_block (blocks s block)\<rparr>)
            (upd_block prev_merge (\<lambda>b. b\<lparr>size_b := size_b b + size_b (blocks s block)\<rparr>) s))
      else Some (block, s))"

partial_function (option) merge_next_loop :: "addr \<Rightarrow> addr \<Rightarrow> state \<Rightarrow> (addr \<times> state) option" where
  "merge_next_loop block next_merge s =
     (if next_merge \<noteq> 0 \<and> free (blocks s next_merge) = 1 then
        merge_next_loop next_merge
          (next_block (blocks s next_merge))
          (upd_block next_merge (\<lambda>b. b\<lparr>prev_block := prev_block (blocks s block)\<rparr>)
            (upd_block next_merge (\<lambda>b. b\<lparr>size_b := size_b b + size_b (blocks s block)\<rparr>) s))
      else Some (block, s))"

definition merge_block :: "addr \<Rightarrow> state \<Rightarrow> (addr outcome \<times> state) option" where
  "merge_block block s =
     (if block = 0 then Some (Segfault, s)
      else if free (blocks s block) \<noteq> 1 then Some (Returns 0, s)
      else
        case merge_prev_loop block (prev_block (blocks s block)) s of
          None \<Rightarrow> None
        | Some (block1, s1) \<Rightarrow>
            (case merge_next_loop block1 (next_block (blocks s1 block1)) s1 of
               None \<Rightarrow> None
             | Some (block2, s2) \<Rightarrow> Some (Returns block2, s2)))"

subsection \<open>Placement strategies\<close>

partial_function (option) first_fit_loop :: "state \<Rightarrow> size_t \<Rightarrow> addr \<Rightarrow> addr option" where
  "first_fit_loop s sz cur =
     (if cur \<noteq> 0 then
        if sz \<le> size_b (blocks s cur) then Some cur
        else first_fit_loop s sz (next_free (blocks s cur))
      else Some 0)"

definition first_fit :: "state \<Rightarrow> size_t \<Rightarrow> addr option" where
  "first_fit s sz = first_fit_loop s sz (g_free_list s)"

partial_function (option) worst_fit_loop :: "state \<Rightarrow> size_t \<Rightarrow> addr \<Rightarrow> addr \<Rightarrow> addr option" where
  "worst_fit_loop s sz cur largest_free_region =
     (if cur \<noteq> 0 then
        worst_fit_loop s sz (next_free (blocks s cur))
          (if sz \<le> size_b (blocks s cur) then
             if largest_free_region = 0
                \<or> size_b (blocks s largest_free_region) \<le> size_b (blocks s cur)
             then cur else largest_free_region
           else largest_free_region)
      else Some largest_free_region)"

definition worst_fit :: "state \<Rightarrow> size_t \<Rightarrow> addr option" where
  "worst_fit s sz = worst_fit_loop s sz (g_free_list s) 0"

partial_function (option) best_fit_loop :: "state \<Rightarrow> size_t \<Rightarrow> addr \<Rightarrow> addr \<Rightarrow> addr option" where
  "best_fit_loop s sz cur perfect_free_region =
     (if cur \<noteq> 0 then
        best_fit_loop s sz (next_free (blocks s cur))
          (if sz \<le> size_b (blocks s cur) then
             if perfect_free_region = 0
                \<or> size_b (blocks s cur) \<le> size_b (blocks s perfect_free_region)
             then cur else perfect_free_region
           else perfect_free_region)
      else Some perfect_free_region)"

definition best_fit :: "state \<Rightarrow> size_t \<Rightarrow> addr option" where
  "best_fit s sz = best_fit_loop s sz (g_free_list s) 0"

subsection \<open>Reuse\<close>

text \<open>
  The strategy named by \<^verbatim>\<open>ALLOCATOR_ALGORITHM\<close> (\<^verbatim>\<open>first_fit\<close> when the
  variable is unset); any other name runs no search and leaves
  \<^verbatim>\<open>reused_block\<close> at \<open>NULL\<close>.
\<close>

definition search :: "env \<Rightarrow> state \<Rightarrow> size_t \<Rightarrow> addr option" where
  "search E s sz =
     (let algo = (case ALLOCATOR_ALGORITHM E of None \<Rightarrow> ''first_fit'' | Some a \<Rightarrow> a)
      in if algo = ''first_fit'' then first_fit s sz
         else if algo = ''best_fit'' then best_fit s sz
         else if algo = ''worst_fit'' then worst_fit s sz
         else Some 0)"

text \<open>The loop that unlinks \<^verbatim>\<open>reused_block\<close> when it is not the list head.\<close>

partial_function (option) unlink_loop :: "addr \<Rightarrow> addr \<Rightarrow> state \<Rightarrow> state option" where
  "unlink_loop reused_block cur s =
     (if cur \<noteq> 0 then
        if next_free (blocks s cur) = reused_block then
          unlink_loop reused_block (next_free (blocks s reused_block))
            (upd_block cur (\<lambda>b. b\<lparr>next_free := next_free (blocks s reused_block)\<rparr>) s)
        else unlink_loop reused_block (next_free (blocks s cur)) s
      else Some s)"

declare merge_prev_loop.simps [code]
declare merge_next_loop.simps [code]
declare first_fit_loop.simps [code]
declare worst_fit_loop.simps [code]
declare best_fit_loop.simps [code]
declare unlink_loop.simps [code]

definition push_split :: "addr \<Rightarrow> state \<Rightarrow> state" where
  "push_split split_reused_block s =
     (if g_free_list s = 0 then s\<lparr>g_free_list := split_reused_block\<rparr>
      else if split_reused_block \<noteq> 0 then
        (upd_block split_reused_block (\<lambda>b. b\<lparr>next_free := g_free_list s\<rparr>) s)
          \<lparr>g_free_list := split_reused_block\<rparr>
      else s)"

definition reuse :: "platform \<Rightarrow> env \<Rightarrow> size_t \<Rightarrow> state \<Rightarrow> (addr \<times> state) option" where
  "reuse P E sz s =
     (case search E s sz of
        None \<Rightarrow> None
      | Some reused_block \<Rightarrow>
          if reused_block = 0 then Some (0, s)
          else
            let (split_reused_block, s1) =
                  split_block P reused_block (size_b (blocks s reused_block) - sz) s;
                cur = g_free_list s1
            in (case (if cur = reused_block
                      then Some (s1\<lparr>g_free_list := next_free (blocks s1 cur)\<rparr>)
                      else unlink_loop reused_block cur s1) of
                  None \<Rightarrow> None
                | Some s2 \<Rightarrow>
                    Some (reused_block,
                          upd_block reused_block (\<lambda>b. b\<lparr>free := 0\<rparr>)
                            (push_split split_reused_block s2))))"

subsection \<open>The allocation functions\<close>

definition scribble_check :: "env \<Rightarrow> int" where
  "scribble_check E = (case ALLOCATOR_SCRIBBLE E of None \<Rightarrow> 0 | Some a \<Rightarrow> atoi a)"

text \<open>
  The part of \<^verbatim>\<open>malloc_impl\<close> after a successful \<^verbatim>\<open>mmap\<close> that returned
  \<open>region\<close>. \<^verbatim>\<open>(struct mem_block *) region + 1\<close> casts first and then adds one
  \<^verbatim>\<open>struct mem_block\<close>; \<^verbatim>\<open>(void*) block+1\<close> is one byte past
  \<open>block\<close>. When the split fails and the free list is not empty,
  \<^verbatim>\<open>new_block->next_free\<close> writes through \<open>NULL\<close>.
\<close>

definition new_region :: "platform \<Rightarrow> env \<Rightarrow> addr \<Rightarrow> size_t \<Rightarrow> size_t \<Rightarrow> size_t \<Rightarrow> string option
    \<Rightarrow> state \<Rightarrow> addr outcome \<times> state" where
  "new_region P E region map_sz actual_sz aligned_sz nm s =
     (let s1 = mmap_fresh region map_sz s;
          s2 = upd_region region (\<lambda>r. r\<lparr>region_number := g_regions s1\<rparr>) s1;
          s3 = s2\<lparr>g_regions := g_regions s2 + 1\<rparr>;
          s4 = (if g_region_head s3 = 0 \<and> g_region_tail s3 = 0
                then s3\<lparr>g_region_head := region, g_region_tail := region\<rparr>
                else (upd_region (g_region_tail s3) (\<lambda>r. r\<lparr>next_region := region\<rparr>) s3)
                       \<lparr>g_region_tail := region\<rparr>);
          block = region + sizeof_mem_block P;
          s5 = upd_block block (\<lambda>b. b\<lparr>free := 0\<rparr>) s4;
          s6 = upd_block block (\<lambda>b. b\<lparr>size_b := map_sz - sizeof_mem_region P\<rparr>) s5;
          s7 = upd_block block (\<lambda>b. b\<lparr>block_number := g_allocations s6\<rparr>) s6;
          s8 = s7\<lparr>g_allocations := g_allocations s7 + 1\<rparr>;
          s9 = (case nm of None \<Rightarrow> s8 | Some t \<Rightarrow> upd_block block (\<lambda>b. b\<lparr>name := t\<rparr>) s8);
          (new_block, s10) = split_block P block (size_b (blocks s9 block) - actual_sz) s9
      in if g_free_list s10 \<noteq> 0 \<and> new_block = 0 then (Segfault, s10)
         else
           let s11 = (if g_free_list s10 = 0 then s10\<lparr>g_free_list := new_block\<rparr>
                      else (upd_block new_block (\<lambda>b. b\<lparr>next_free := g_free_list s10\<rparr>) s10)
                             \<lparr>g_free_list := new_block\<rparr>);
               s12 = (if scribble_check E = 1 then memset P (block + 1) 0xAA aligned_sz s11
                      else s11)
           in (Returns (block + sizeof_mem_block P), s12))"

text \<open>
  \<^verbatim>\<open>malloc_impl\<close>. \<open>mm\<close> is the answer \<^verbatim>\<open>mmap\<close> gives if it is called.
  On the reuse path \<^verbatim>\<open>strcpy\<close> reads \<^verbatim>\<open>name\<close> without a null check.
\<close>

definition malloc_impl :: "platform \<Rightarrow> env \<Rightarrow> addr option \<Rightarrow> size_t \<Rightarrow> string option
    \<Rightarrow> state \<Rightarrow> (addr outcome \<times> state) option" where
  "malloc_impl P E mm sz nm s =
     (let actual_sz = sz + sizeof_mem_region P;
          aligned_sz = align actual_sz ALIGN_SZ
      in case reuse P E aligned_sz s of
           None \<Rightarrow> None
         | Some (reused_block, s1) \<Rightarrow>
             if reused_block \<noteq> 0 then
               (case nm of
                  None \<Rightarrow> Some (Segfault, s1)
                | Some t \<Rightarrow>
                    let s2 = upd_block reused_block (\<lambda>b. b\<lparr>name := t\<rparr>) s1;
                        s3 = (if scribble_check E = 1
                              then memset P (reused_block + 1) 0xAA sz s2 else s2)
                    in Some (Returns (reused_block + sizeof_mem_block P), s3))
             else
               let map_sz = align (aligned_sz + sizeof_mem_region P) (pagesize P)
               in (case mm of
                     None \<Rightarrow> Some (Returns 0, s1)
                   | Some region \<Rightarrow>
                       Some (new_region P E region map_sz actual_sz aligned_sz nm s1)))"

text \<open>
  \<^verbatim>\<open>free_impl\<close>. \<^verbatim>\<open>(void *) block - 1\<close> is the address one byte before
  \<open>block\<close>. Whatever \<^verbatim>\<open>munmap\<close> answers, the function returns with the
  same state, so the request alone is recorded.
\<close>

definition free_impl :: "platform \<Rightarrow> addr \<Rightarrow> state \<Rightarrow> state" where
  "free_impl P ptr s =
     (if ptr = 0 then s
      else
        let block = ptr - sizeof_mem_block P;
            s1 = upd_block block (\<lambda>b. b\<lparr>free := 1\<rparr>) s;
            s2 = (if g_free_list s1 = 0 then s1\<lparr>g_free_list := block\<rparr>
                  else (upd_block block (\<lambda>b. b\<lparr>next_free := g_free_list s1\<rparr>) s1)
                         \<lparr>g_free_list := block\<rparr>);
            region = block - 1
        in s2\<lparr>munmaps := munmaps s2 @ [(region, size_b (blocks s2 block) + sizeof_mem_region P)]\<rparr>)"

text \<open>
  \<^verbatim>\<open>calloc_impl\<close>: \<^verbatim>\<open>memset(ptr, 0, nmemb * size)\<close> runs on whatever
  \<^verbatim>\<open>malloc_impl\<close> returned; with a null \<open>ptr\<close> and a non-zero length it
  writes through \<open>NULL\<close>.
\<close>

definition calloc_impl :: "platform \<Rightarrow> env \<Rightarrow> addr option \<Rightarrow> size_t \<Rightarrow> size_t \<Rightarrow> string option
    \<Rightarrow> state \<Rightarrow> (addr outcome \<times> state) option" where
  "calloc_impl P E mm nmemb sz nm s =
     (case malloc_impl P E mm (nmemb * sz) nm s of
        None \<Rightarrow> None
      | Some (Segfault, s1) \<Rightarrow> Some (Segfault, s1)
      | Some (Returns ptr, s1) \<Rightarrow>
          if ptr = 0 \<and> nmemb * sz \<noteq> 0 then Some (Segfault, s1)
          else Some (Returns ptr, memset P ptr 0 (nmemb * sz) s1))"

definition realloc_impl :: "platform \<Rightarrow> env \<Rightarrow> addr option \<Rightarrow> addr \<Rightarrow> size_t \<Rightarrow> string option
    \<Rightarrow> state \<Rightarrow> (addr outcome \<times> state) option" where
  "realloc_impl P E mm ptr sz nm s =
     (if ptr = 0 then malloc_impl P E mm sz nm s
      else if sz = 0 then Some (Returns 0, free_impl P ptr s)
      else Some (Returns 0, s))"

subsection \<open>Call sequences\<close>

text \<open>
  The four entry points. An allocating call carries the answer \<^verbatim>\<open>mmap\<close> gives
  if the call reaches it; the environment is read anew by every call, so each call
  comes with the environment it runs in. \<open>run\<close> executes a sequence and stops at
  the first call that does not return; \<^verbatim>\<open>free_impl\<close> returns nothing, written
  \<open>Returns 0\<close>.
\<close>

datatype call =
    Allocate size_t "string option" "addr option"
  | Release addr
  | Bulk_allocate size_t size_t "string option" "addr option"
  | Resize addr size_t "string option" "addr option"

fun step :: "platform \<Rightarrow> env \<Rightarrow> call \<Rightarrow> state \<Rightarrow> (addr outcome \<times> state) option" where
  "step P E (Allocate sz nm mm) s = malloc_impl P E mm sz nm s"
| "step P E (Release ptr) s = Some (Returns 0, free_impl P ptr s)"
| "step P E (Bulk_allocate nmemb sz nm mm) s = calloc_impl P E mm nmemb sz nm s"
| "step P E (Resize ptr sz nm mm) s = realloc_impl P E mm ptr sz nm s"

fun run :: "platform \<Rightarrow> (env \<times> call) list \<Rightarrow> state \<Rightarrow> (addr outcome list \<times> state) option" where
  "run P [] s = Some ([], s)"
| "run P ((E, c) # cs) s =
     (case step P E c s of
        None \<Rightarrow> None
      | Some (Segfault, s1) \<Rightarrow> Some ([Segfault], s1)
      | Some (Returns p, s1) \<Rightarrow>
          (case run P cs s1 of
             None \<Rightarrow> None
           | Some (rs, s2) \<Rightarrow> Some (Returns p # rs, s2)))"

text \<open>What a run returned, and an observation of the state it ended in.\<close>

definition results :: "('r \<times> state) option \<Rightarrow> 'r option" where
  "results r = map_option fst r"

definition final :: "(state \<Rightarrow> 'a) \<Rightarrow> ('r \<times> state) option \<Rightarrow> 'a option" where
  "final f r = map_option (f \<circ> snd) r"

definition header_at :: "addr \<Rightarrow> state \<Rightarrow> mem_block" where
  "header_at a s = blocks s a"

definition size_at :: "addr \<Rightarrow> state \<Rightarrow> size_t" where
  "size_at a s = size_b (blocks s a)"

definition byte_at :: "addr \<Rightarrow> state \<Rightarrow> byte" where
  "byte_at a s = bytes s a"

subsection \<open>Abstractions used in the statements\<close>

text \<open>
  \<open>free_list s p ps\<close>: following \<^verbatim>\<open>next_free\<close> from \<open>p\<close> visits exactly
  the blocks \<open>ps\<close>, in this order, and then reaches \<open>NULL\<close>.
\<close>

primrec free_list :: "state \<Rightarrow> addr \<Rightarrow> addr list \<Rightarrow> bool" where
  "free_list s p [] = (p = 0)"
| "free_list s p (a # as) = (p = a \<and> a \<noteq> 0 \<and> free_list s (next_free (blocks s a)) as)"

definition is_free_list :: "addr list \<Rightarrow> state \<Rightarrow> bool" where
  "is_free_list ps s = free_list s (g_free_list s) ps"

text \<open>
  Mapped memory. The \<open>n\<close> bytes at \<open>a\<close> lie inside one mapping the allocator has
  made, and no \<^verbatim>\<open>munmap\<close> request so far has taken memory away: each was one that
  Linux refuses (\<^verbatim>\<open>EINVAL\<close>), with a zero length or an address that is not a
  multiple of the page size.
\<close>

definition in_mapping :: "addr \<Rightarrow> nat \<Rightarrow> addr \<times> size_t \<Rightarrow> bool" where
  "in_mapping a n m =
     (unat (fst m) \<le> unat a \<and> unat a + n \<le> unat (fst m) + unat (snd m)
      \<and> unat (fst m) + unat (snd m) \<le> 2 ^ 64)"

definition refused :: "platform \<Rightarrow> addr \<times> size_t \<Rightarrow> bool" where
  "refused P r = (snd r = 0 \<or> fst r mod pagesize P \<noteq> 0)"

definition mapped :: "platform \<Rightarrow> state \<Rightarrow> addr \<Rightarrow> nat \<Rightarrow> bool" where
  "mapped P s a n = (list_ex (in_mapping a n) (mmaps s) \<and> list_all (refused P) (munmaps s))"

text \<open>
  What a request with aligned total \<open>aligned\<close> needs of the blocks \<open>ps\<close> of the free
  list. Each block is at least a header long, and its first bytes are mapped: all of
  them, or the aligned total plus one header where the block is longer (the part that
  \<^verbatim>\<open>reuse\<close> reads and writes, the header of a split-off tail included). The
  extents of different blocks do not overlap.
\<close>

definition block_ok :: "platform \<Rightarrow> state \<Rightarrow> size_t \<Rightarrow> addr \<Rightarrow> bool" where
  "block_ok P s aligned b =
     (unat (sizeof_mem_block P) \<le> unat (size_b (blocks s b))
      \<and> mapped P s b (min (unat (size_b (blocks s b)))
                         (unat aligned + unat (sizeof_mem_block P))))"

definition disjoint_extents :: "state \<Rightarrow> addr \<Rightarrow> addr \<Rightarrow> bool" where
  "disjoint_extents s b c =
     (unat b + unat (size_b (blocks s b)) \<le> unat c
      \<or> unat c + unat (size_b (blocks s c)) \<le> unat b)"

primrec extents_apart :: "state \<Rightarrow> addr list \<Rightarrow> bool" where
  "extents_apart s [] = True"
| "extents_apart s (b # bs) = (list_all (disjoint_extents s b) bs \<and> extents_apart s bs)"

definition free_blocks_ok :: "platform \<Rightarrow> state \<Rightarrow> size_t \<Rightarrow> addr list \<Rightarrow> bool" where
  "free_blocks_ok P s aligned ps = (list_all (block_ok P s aligned) ps \<and> extents_apart s ps)"

text \<open>
  The region list is the same in \<open>s\<close> and \<open>s'\<close>: the same mappings, the same
  counter, the same list head and tail.
\<close>

definition region_list_unchanged :: "state \<Rightarrow> state \<Rightarrow> bool" where
  "region_list_unchanged s s' =
     (mmaps s' = mmaps s \<and> g_regions s' = g_regions s
      \<and> g_region_head s' = g_region_head s \<and> g_region_tail s' = g_region_tail s)"

text \<open>
  The sum of the recorded block lengths of a region, walking \<^verbatim>\<open>next_block\<close>
  from the first block as \<^verbatim>\<open>print_memory\<close> walks it. The first block is where
  \<^verbatim>\<open>malloc_impl\<close> puts it. \<open>usable_length\<close> is the mapped size minus the
  region header.
\<close>

partial_function (option) chain_sum :: "state \<Rightarrow> addr \<Rightarrow> nat \<Rightarrow> nat option" where
  "chain_sum s b acc =
     (if b = 0 then Some acc
      else chain_sum s (next_block (blocks s b)) (acc + unat (size_b (blocks s b))))"

declare chain_sum.simps [code]

definition region_sum :: "platform \<Rightarrow> addr \<Rightarrow> state \<Rightarrow> nat option" where
  "region_sum P region s = chain_sum s (region + sizeof_mem_block P) 0"

definition usable_length :: "platform \<Rightarrow> size_t \<Rightarrow> nat" where
  "usable_length P map_sz = unat map_sz - unat (sizeof_mem_region P)"

subsection \<open>Concrete inputs\<close>

definition default_env :: env where
  "default_env = \<lparr> ALLOCATOR_ALGORITHM = None, ALLOCATOR_SCRIBBLE = None \<rparr>"

definition scribble_env :: env where
  "scribble_env = \<lparr> ALLOCATOR_ALGORITHM = None, ALLOCATOR_SCRIBBLE = Some ''1'' \<rparr>"

definition next_fit_env :: env where
  "next_fit_env = \<lparr> ALLOCATOR_ALGORITHM = Some ''next_fit'', ALLOCATOR_SCRIBBLE = None \<rparr>"

text \<open>
  One block of \<open>n\<close> bytes at address \<open>a\<close> in a process whose only mapping is one of
  8192 bytes at \<open>0x10000\<close>.
\<close>

definition one_block :: "addr \<Rightarrow> size_t \<Rightarrow> state" where
  "one_block a n = upd_block a (\<lambda>b. b\<lparr>size_b := n\<rparr>) (mmap_fresh 0x10000 0x2000 init_state)"

text \<open>
  The picture in the comment of \<^verbatim>\<open>merge_block\<close>: \<open>b1\<close> (free, \<open>0x100\<close> bytes
  at \<open>0x1000\<close>), \<open>b2\<close> (free, \<open>0x200\<close> bytes at \<open>0x1100\<close>), \<open>b3\<close> (used,
  \<open>0x300\<close> bytes at \<open>0x1300\<close>), linked in this order.
\<close>

definition three_blocks :: state where
  "three_blocks = init_state\<lparr> blocks := (\<lambda>_. zero_block)
     (0x1000 := \<lparr> block_number = 0, name = [], size_b = 0x100, free = 1,
                  prev_block = 0, next_block = 0x1100, next_free = 0 \<rparr>,
      0x1100 := \<lparr> block_number = 1, name = [], size_b = 0x200, free = 1,
                  prev_block = 0x1000, next_block = 0x1300, next_free = 0 \<rparr>,
      0x1300 := \<lparr> block_number = 2, name = [], size_b = 0x300, free = 0,
                  prev_block = 0x1100, next_block = 0, next_free = 0 \<rparr>) \<rparr>"

text \<open>A free list of two blocks of 128 bytes each: \<open>0x1000\<close>, then \<open>0x2000\<close>.\<close>

definition two_equal :: state where
  "two_equal = init_state\<lparr> g_free_list := 0x1000, blocks := (\<lambda>_. zero_block)
     (0x1000 := \<lparr> block_number = 0, name = [], size_b = 128, free = 1,
                  prev_block = 0, next_block = 0, next_free = 0x2000 \<rparr>,
      0x2000 := \<lparr> block_number = 1, name = [], size_b = 128, free = 1,
                  prev_block = 0, next_block = 0, next_free = 0 \<rparr>) \<rparr>"

text \<open>
  Two call sequences on the example platform: \<^verbatim>\<open>allocate(100, "x")\<close> on a fresh
  process, where \<^verbatim>\<open>mmap\<close> answers \<open>0x10000\<close>, and the same followed by the
  release of the pointer it returns.
\<close>

definition alloc_x :: "(env \<times> call) list" where
  "alloc_x = [(default_env, Allocate 100 (Some ''x'') (Some 0x10000))]"

definition alloc_release_x :: "(env \<times> call) list" where
  "alloc_release_x = alloc_x @ [(default_env, Release 0x100A0)]"

text \<open>The definitions that a run on a concrete input unfolds.\<close>

lemmas run_defs =
  malloc_impl_def reuse_def search_def first_fit_def first_fit_loop.simps
  best_fit_def best_fit_loop.simps worst_fit_def worst_fit_loop.simps unlink_loop.simps
  merge_block_def merge_prev_loop.simps merge_next_loop.simps
  init_state_def lp64_def align_def ALIGN_SZ_def new_region_def mmap_fresh_def
  scribble_check_def split_block_def upd_block_def upd_region_def push_split_def
  free_impl_def calloc_impl_def realloc_impl_def
  memset_def range_upd_def fill_blocks_def fill_regions_def fill_block_def fill_region_def
  fill64_def fill8_def fill_byte_def in_range_def zero_block_def zero_region_def
  atoi_def strtol_def isspace_def isdigit_def
  in_mapping_def refused_def mapped_def block_ok_def disjoint_extents_def free_blocks_ok_def
  results_def final_def header_at_def size_at_def byte_at_def is_free_list_def
  region_sum_def chain_sum.simps usable_length_def region_list_unchanged_def
  default_env_def scribble_env_def next_fit_env_def
  one_block_def three_blocks_def two_equal_def alloc_x_def alloc_release_x_def

section \<open>Facts about \<^verbatim>\<open>align\<close>\<close>

text \<open>
  The value of \<^verbatim>\<open>align\<close> as a natural number: the least multiple of the granularity
  that is not below the size when that multiple is less than \<open>2\<^sup>6\<^sup>4\<close>, and that
  multiple minus \<open>2\<^sup>6\<^sup>4\<close> otherwise.
\<close>

lemma ceil_exact:
  assumes "0 < (k::nat)" and "n mod k = 0"
  shows "(n + k - 1) div k = n div k"
proof (rule div_nat_eqI)
  have e: "k * (n div k) = n"
    using assms(2) by (simp add: mod_0_imp_dvd)
  show "k * (n div k) \<le> n + k - 1" using e assms(1) by linarith
  show "n + k - 1 < k * Suc (n div k)" using e assms(1) by simp
qed

lemma ceil_up:
  assumes "0 < (k::nat)" and "n mod k \<noteq> 0"
  shows "(n + k - 1) div k = n div k + 1"
proof (rule div_nat_eqI)
  define q where "q = k * (n div k)"
  define r where "r = n mod k"
  have e: "n = q + r" by (simp add: q_def r_def)
  have m: "r < k" "0 < r" using assms by (simp_all add: r_def)
  have "q + k \<le> n + k - 1" using e m by linarith
  then show "k * (n div k + 1) \<le> n + k - 1" by (simp add: q_def algebra_simps)
  have "n + k - 1 < q + k + k" using e m by linarith
  then show "n + k - 1 < k * Suc (n div k + 1)" by (simp add: q_def algebra_simps)
qed

lemma align_unat:
  assumes "g \<noteq> 0"
    and "((unat s + unat g - 1) div unat g) * unat g < 2 ^ 64"
  shows "unat (align s g) = ((unat s + unat g - 1) div unat g) * unat g"
proof -
  define n where "n = unat s"
  define k where "k = unat g"
  have kpos: "0 < k" using assms(1) by (simp add: k_def unat_gt_0)
  have nlt: "n < 2 ^ 64" using unsigned_less [of s, where 'a = nat] by (simp add: n_def)
  have low: "(n div k) * k \<le> n" by simp
  have q: "unat ((s div g) * g) = (n div k) * k"
  proof -
    have "unat ((s div g) * g) = (unat (s div g) * unat g) mod 2 ^ 64"
      by (simp add: unat_word_ariths)
    also have "\<dots> = ((n div k) * k) mod 2 ^ 64"
      by (simp only: unat_div n_def k_def)
    also have "\<dots> = (n div k) * k"
      using low nlt by (intro mod_less) (rule le_less_trans)
    finally show ?thesis .
  qed
  show ?thesis
  proof (cases "n mod k = 0")
    case True
    then have "s mod g = 0"
      by (metis k_def n_def unat_mod unat_eq_zero)
    moreover from True kpos have "(n + k - 1) div k = n div k"
      by (rule ceil_exact [rotated])
    ultimately show ?thesis
      using q by (simp add: align_def n_def k_def)
  next
    case False
    then have ne: "s mod g \<noteq> 0"
      by (metis k_def n_def unat_mod unat_eq_zero)
    have up: "(n + k - 1) div k = n div k + 1"
      using kpos False by (rule ceil_up)
    have fits: "(n div k) * k + k < 2 ^ 64"
      using assms(2) up by (simp add: n_def k_def algebra_simps)
    have "unat ((s div g) * g + g) = (n div k) * k + k"
      using fits q by (simp add: unat_word_ariths k_def)
    then show ?thesis
      using ne up by (simp add: align_def n_def k_def Let_def)
  qed
qed

lemma align_wraps:
  assumes "g \<noteq> 0"
    and "2 ^ 64 \<le> ((unat s + unat g - 1) div unat g) * unat g"
  shows "unat (align s g) = ((unat s + unat g - 1) div unat g) * unat g - 2 ^ 64"
    and "align s g < s"
proof -
  define n where "n = unat s"
  define k where "k = unat g"
  have kpos: "0 < k" using assms(1) by (simp add: k_def unat_gt_0)
  have nlt: "n < 2 ^ 64" using unsigned_less [of s, where 'a = nat] by (simp add: n_def)
  have klt: "k < 2 ^ 64" using unsigned_less [of g, where 'a = nat] by (simp add: k_def)
  have low: "(n div k) * k \<le> n" by simp
  have q: "unat ((s div g) * g) = (n div k) * k"
  proof -
    have "unat ((s div g) * g) = (unat (s div g) * unat g) mod 2 ^ 64"
      by (simp add: unat_word_ariths)
    also have "\<dots> = ((n div k) * k) mod 2 ^ 64"
      by (simp only: unat_div n_def k_def)
    also have "\<dots> = (n div k) * k"
      using low nlt by (intro mod_less) (rule le_less_trans)
    finally show ?thesis .
  qed
  have ne: "n mod k \<noteq> 0"
  proof
    assume z: "n mod k = 0"
    have "(n + k - 1) div k = n div k" using kpos z by (rule ceil_exact)
    then have "((n + k - 1) div k) * k \<le> n" using low by simp
    with assms(2) nlt show False by (simp add: n_def k_def)
  qed
  then have wne: "s mod g \<noteq> 0"
    by (metis k_def n_def unat_mod unat_eq_zero)
  have up: "(n + k - 1) div k = n div k + 1" using kpos ne by (rule ceil_up)
  have big: "2 ^ 64 \<le> (n div k) * k + k"
    using assms(2) up by (simp add: n_def k_def algebra_simps)
  have small: "(n div k) * k + k < 2 ^ 64 + 2 ^ 64" using low nlt klt by linarith
  have "unat ((s div g) * g + g) = ((n div k) * k + k) mod 2 ^ 64"
    using q by (simp add: unat_word_ariths k_def)
  also have "\<dots> = (n div k) * k + k - 2 ^ 64"
    using big small by (simp add: mod_if)
  finally have r: "unat (align s g) = (n div k) * k + k - 2 ^ 64"
    using wne by (simp add: align_def Let_def)
  show "unat (align s g) = ((unat s + unat g - 1) div unat g) * unat g - 2 ^ 64"
    using r up by (simp add: n_def k_def algebra_simps)
  have "(n div k) * k + k - 2 ^ 64 < n" using low klt big by linarith
  then show "align s g < s" using r by (simp add: word_less_nat_alt n_def)
qed

lemma align8_bounds:
  assumes "unat x + 7 < 2 ^ 64"
  shows "unat x \<le> unat (align x ALIGN_SZ)" and "unat (align x ALIGN_SZ) \<le> unat x + 7"
proof -
  have g: "ALIGN_SZ \<noteq> 0" "unat ALIGN_SZ = 8" by (simp_all add: ALIGN_SZ_def)
  have le: "((unat x + 8 - 1) div 8) * 8 \<le> unat x + 7" by simp
  then have fits: "((unat x + unat ALIGN_SZ - 1) div unat ALIGN_SZ) * unat ALIGN_SZ < 2 ^ 64"
    using assms unfolding g(2) by linarith
  have u: "unat (align x ALIGN_SZ) = ((unat x + 8 - 1) div 8) * 8"
    using align_unat [OF g(1) fits] by (simp only: g(2))
  show "unat (align x ALIGN_SZ) \<le> unat x + 7" using u le by simp
  have "unat x \<le> ((unat x + 8 - 1) div 8) * 8" by presburger
  then show "unat x \<le> unat (align x ALIGN_SZ)" using u by simp
qed

section \<open>Release (claim C1)\<close>

text \<open>
  What \<^verbatim>\<open>free_impl\<close> does on any platform and in any state: a null pointer
  changes nothing; otherwise the header \<^verbatim>\<open>sizeof(struct mem_block)\<close> bytes before
  \<open>ptr\<close> is marked free and becomes the head of the free list, no mapping is
  added, and one \<^verbatim>\<open>munmap\<close> request is made. The request starts one byte before
  the block header and is as long as this one block plus a region header.
\<close>

lemma free_impl_null: "free_impl P 0 s = s"
  by (simp add: free_impl_def)

lemma free_impl_request:
  assumes "ptr \<noteq> 0"
  shows "munmaps (free_impl P ptr s) =
           munmaps s @ [(ptr - sizeof_mem_block P - 1,
                         size_b (blocks s (ptr - sizeof_mem_block P)) + sizeof_mem_region P)]"
    and "free (blocks (free_impl P ptr s) (ptr - sizeof_mem_block P)) = 1"
    and "g_free_list (free_impl P ptr s) = ptr - sizeof_mem_block P"
    and "mmaps (free_impl P ptr s) = mmaps s"
  using assms by (simp_all add: free_impl_def Let_def upd_block_def)

text \<open>
  Claim C1: \<^verbatim>\<open>release(ptr)\<close> marks the block before \<open>ptr\<close> free, pushes it
  onto the head of the free list and then unmaps the whole containing region, from the
  region's base address over its whole mapped range.

  \<^verbatim>\<open>allocate(100, "x")\<close> on a fresh process maps 4096 bytes at \<open>0x10000\<close> and
  returns \<open>0x100A0\<close>. Releasing that pointer marks the block at \<open>0x10050\<close> free and
  makes it the head of the free list, as the claim says. The \<^verbatim>\<open>munmap\<close> request
  that follows is for 132 bytes at \<open>0x1004F\<close>: neither the region's base address nor
  its mapped length (and not a page boundary).
\<close>

theorem release_requests_wrong_range:
  "results (run lp64 alloc_release_x init_state) = Some [Returns 0x100A0, Returns 0]
   \<and> final mmaps (run lp64 alloc_release_x init_state) = Some [(0x10000, 0x1000)]
   \<and> final munmaps (run lp64 alloc_release_x init_state) = Some [(0x1004F, 0x84)]
   \<and> final (header_at 0x10050) (run lp64 alloc_release_x init_state) =
        Some \<lparr> block_number = 0, name = ''x'', size_b = 0x74, free = 1,
               prev_block = 0, next_block = 0x100C4, next_free = 0x100C4 \<rparr>
   \<and> final g_free_list (run lp64 alloc_release_x init_state) = Some 0x10050"
  by (simp add: run_defs)

section \<open>Split (claim C2)\<close>





lemma mapped_inside:
  assumes "mapped P s a n" and "unat a \<le> unat c" and "unat c + k \<le> unat a + n"
  shows "mapped P s c k"
proof -
  from assms(1) obtain m where m: "m \<in> set (mmaps s)" "in_mapping a n m"
    and r: "list_all (refused P) (munmaps s)"
    by (auto simp: mapped_def list_ex_iff)
  have "in_mapping c k m" using m(2) assms(2,3) by (simp add: in_mapping_def)
  with m(1) r show ?thesis by (auto simp: mapped_def list_ex_iff)
qed




section \<open>Merge (claim C3)\<close>

text \<open>
  Claim C3: \<^verbatim>\<open>merge(b)\<close> collapses the maximal run of free blocks around \<open>b\<close>
  into one block whose size is the sum of the run and whose links reach the nearest used
  neighbour or the region edge.

  On the three blocks of the comment above \<^verbatim>\<open>merge_block\<close>, merging \<open>b2\<close> gives
  \<open>b1\<close> with \<open>0x300\<close> bytes, as the comment shows. Merging \<open>b1\<close> does not: the
  forward loop adds the size of \<open>b1\<close> to \<open>b2\<close> and returns \<open>b2\<close>. The returned
  block starts at \<open>0x1100\<close> with \<open>0x300\<close> bytes, so it runs over \<open>b3\<close> at
  \<open>0x1300\<close>; \<open>b1\<close> is still in the chain with its old size and still points to
  \<open>b2\<close>, so the run has not become one block.
\<close>

theorem merge_forward_moves_block:
  "results (merge_block 0x1000 three_blocks) = Some (Returns 0x1100)
   \<and> final (header_at 0x1100) (merge_block 0x1000 three_blocks) =
        Some \<lparr> block_number = 1, name = [], size_b = 0x300, free = 1,
               prev_block = 0, next_block = 0x1300, next_free = 0 \<rparr>
   \<and> final (header_at 0x1000) (merge_block 0x1000 three_blocks) =
        Some \<lparr> block_number = 0, name = [], size_b = 0x100, free = 1,
               prev_block = 0, next_block = 0x1100, next_free = 0 \<rparr>
   \<and> final (header_at 0x1300) (merge_block 0x1000 three_blocks) =
        Some \<lparr> block_number = 2, name = [], size_b = 0x300, free = 0,
               prev_block = 0x1100, next_block = 0, next_free = 0 \<rparr>
   \<and> results (merge_block 0x1100 three_blocks) = Some (Returns 0x1000)
   \<and> final (header_at 0x1000) (merge_block 0x1100 three_blocks) =
        Some \<lparr> block_number = 0, name = [], size_b = 0x300, free = 1,
               prev_block = 0, next_block = 0x1300, next_free = 0 \<rparr>"
  by (simp add: run_defs)

section \<open>Best fit and worst fit (claim C4)\<close>

text \<open>
  Claim C4: \<^verbatim>\<open>best_fit\<close> returns the smallest and \<^verbatim>\<open>worst_fit\<close> the largest
  qualifying block of the free list; among candidates of the same size, both return the
  one scanned first.

  With two free blocks of 128 bytes and a request of 100, both functions return the
  second block (\<open>0x2000\<close>), not the first: the comparisons \<^verbatim>\<open>>=\<close> and
  \<^verbatim>\<open><=\<close> replace the candidate on a tie. \<^verbatim>\<open>first_fit\<close> returns the first.
\<close>

theorem fit_ties_take_last:
  "is_free_list [0x1000, 0x2000] two_equal
   \<and> size_at 0x1000 two_equal = 128 \<and> size_at 0x2000 two_equal = 128
   \<and> best_fit two_equal 100 = Some 0x2000
   \<and> worst_fit two_equal 100 = Some 0x2000
   \<and> first_fit two_equal 100 = Some 0x1000"
  by (simp add: run_defs)

section \<open>Bulk allocation (claim C5)\<close>

text \<open>
  On any platform: when \<^verbatim>\<open>malloc_impl\<close> returns null and the length is not zero,
  \<^verbatim>\<open>calloc_impl\<close> writes through the null pointer.
\<close>

lemma calloc_impl_null:
  assumes "malloc_impl P E mm (nmemb * sz) nm s = Some (Returns 0, s1)"
    and "nmemb * sz \<noteq> 0"
  shows "calloc_impl P E mm nmemb sz nm s = Some (Segfault, s1)"
  using assms by (simp add: calloc_impl_def)

text \<open>
  Claim C5: \<^verbatim>\<open>bulk_allocate(count, size, tag)\<close> returns what
  \<^verbatim>\<open>allocate(count * size, tag)\<close> returns, zero-fills a non-null result, and does
  not dereference a null result.

  When the operating system refuses the mapping, \<^verbatim>\<open>allocate(8, "x")\<close> returns null.
  \<^verbatim>\<open>bulk_allocate(1, 8, "x")\<close> in the same situation does not return: its
  \<^verbatim>\<open>memset\<close> runs on the null result.
\<close>

theorem bulk_allocate_null_write:
  "results (run lp64 [(default_env, Allocate 8 (Some ''x'') None)] init_state)
     = Some [Returns 0]
   \<and> results (run lp64 [(default_env, Bulk_allocate 1 8 (Some ''x'') None)] init_state)
     = Some [Segfault]"
  by (simp add: run_defs)

section \<open>Reuse without a new region (claim C6)\<close>

lemma free_list_frame:
  "(\<And>a. a \<in> set ps \<Longrightarrow> next_free (blocks s' a) = next_free (blocks s a))
   \<Longrightarrow> free_list s' p ps = free_list s p ps"
  by (induction ps arbitrary: p) auto

lemma free_list_nonzero: "free_list s p ps \<Longrightarrow> 0 \<notin> set ps"
  by (induction ps arbitrary: p) auto

lemma free_list_unique: "free_list s p ps \<Longrightarrow> free_list s p qs \<Longrightarrow> ps = qs"
proof (induction ps arbitrary: p qs)
  case Nil
  then show ?case by (cases qs) auto
next
  case (Cons a ps)
  then show ?case by (cases qs) auto
qed

lemma free_list_suffix:
  "free_list s p (xs @ a # ys) \<Longrightarrow> free_list s (next_free (blocks s a)) ys"
  by (induction xs arbitrary: p) auto

lemma free_list_distinct: "free_list s p ps \<Longrightarrow> distinct ps"
proof (induction ps arbitrary: p)
  case Nil
  then show ?case by simp
next
  case (Cons a ps)
  have tl: "free_list s (next_free (blocks s a)) ps" using Cons.prems by simp
  have "a \<notin> set ps"
  proof
    assume "a \<in> set ps"
    then obtain xs ys where sp: "ps = xs @ a # ys" by (meson split_list)
    with tl have "free_list s (next_free (blocks s a)) ys" by (simp add: free_list_suffix)
    with tl have "ps = ys" by (rule free_list_unique)
    with sp show False by simp
  qed
  with Cons.IH [OF tl] show ?case by simp
qed

lemma first_fit_loop_list:
  "free_list s p ps \<Longrightarrow>
   \<exists>r. first_fit_loop s sz p = Some r
       \<and> (r = 0 \<or> r \<in> set ps \<and> sz \<le> size_b (blocks s r))
       \<and> ((\<exists>b\<in>set ps. sz \<le> size_b (blocks s b)) \<longrightarrow> r \<noteq> 0)"
proof (induction ps arbitrary: p)
  case Nil
  then show ?case by (subst first_fit_loop.simps) simp
next
  case (Cons a ps)
  then have p: "p = a" "a \<noteq> 0" and tl: "free_list s (next_free (blocks s a)) ps" by simp_all
  show ?case
  proof (cases "sz \<le> size_b (blocks s a)")
    case True
    then show ?thesis using p by (subst first_fit_loop.simps) simp
  next
    case False
    from Cons.IH [OF tl] obtain r where
      r: "first_fit_loop s sz (next_free (blocks s a)) = Some r"
         "r = 0 \<or> r \<in> set ps \<and> sz \<le> size_b (blocks s r)"
         "(\<exists>b\<in>set ps. sz \<le> size_b (blocks s b)) \<longrightarrow> r \<noteq> 0" by blast
    have "first_fit_loop s sz p = Some r"
      using False p r(1) by (subst first_fit_loop.simps) simp
    then show ?thesis using r(2,3) False by auto
  qed
qed

lemma best_fit_loop_list:
  "free_list s p ps \<Longrightarrow>
   \<exists>r. best_fit_loop s sz p acc = Some r
       \<and> (r = acc \<or> r \<in> set ps \<and> sz \<le> size_b (blocks s r))
       \<and> (acc \<noteq> 0 \<longrightarrow> r \<noteq> 0)
       \<and> ((\<exists>b\<in>set ps. sz \<le> size_b (blocks s b)) \<longrightarrow> r \<noteq> 0)"
proof (induction ps arbitrary: p acc)
  case Nil
  then show ?case by (subst best_fit_loop.simps) simp
next
  case (Cons a ps)
  then have p: "p = a" "a \<noteq> 0" and tl: "free_list s (next_free (blocks s a)) ps" by simp_all
  define acc' where "acc' =
    (if sz \<le> size_b (blocks s a) then
       if acc = 0 \<or> size_b (blocks s a) \<le> size_b (blocks s acc) then a else acc
     else acc)"
  from Cons.IH [OF tl, of acc'] obtain r where
    r: "best_fit_loop s sz (next_free (blocks s a)) acc' = Some r"
       "r = acc' \<or> r \<in> set ps \<and> sz \<le> size_b (blocks s r)"
       "acc' \<noteq> 0 \<longrightarrow> r \<noteq> 0"
       "(\<exists>b\<in>set ps. sz \<le> size_b (blocks s b)) \<longrightarrow> r \<noteq> 0" by blast
  have "best_fit_loop s sz p acc = best_fit_loop s sz (next_free (blocks s a)) acc'"
    unfolding acc'_def using p by (subst best_fit_loop.simps) simp
  then have "best_fit_loop s sz p acc = Some r"
    using r(1) by (simp only:)
  moreover have "r = acc \<or> r \<in> set (a # ps) \<and> sz \<le> size_b (blocks s r)"
    using r(2) by (auto simp: acc'_def split: if_splits)
  moreover have "acc \<noteq> 0 \<longrightarrow> r \<noteq> 0"
    using r(3) p by (auto simp: acc'_def split: if_splits)
  moreover have "(\<exists>b\<in>set (a # ps). sz \<le> size_b (blocks s b)) \<longrightarrow> r \<noteq> 0"
    using r(3,4) p by (auto simp: acc'_def split: if_splits)
  ultimately show ?case by blast
qed

lemma worst_fit_loop_list:
  "free_list s p ps \<Longrightarrow>
   \<exists>r. worst_fit_loop s sz p acc = Some r
       \<and> (r = acc \<or> r \<in> set ps \<and> sz \<le> size_b (blocks s r))
       \<and> (acc \<noteq> 0 \<longrightarrow> r \<noteq> 0)
       \<and> ((\<exists>b\<in>set ps. sz \<le> size_b (blocks s b)) \<longrightarrow> r \<noteq> 0)"
proof (induction ps arbitrary: p acc)
  case Nil
  then show ?case by (subst worst_fit_loop.simps) simp
next
  case (Cons a ps)
  then have p: "p = a" "a \<noteq> 0" and tl: "free_list s (next_free (blocks s a)) ps" by simp_all
  define acc' where "acc' =
    (if sz \<le> size_b (blocks s a) then
       if acc = 0 \<or> size_b (blocks s acc) \<le> size_b (blocks s a) then a else acc
     else acc)"
  from Cons.IH [OF tl, of acc'] obtain r where
    r: "worst_fit_loop s sz (next_free (blocks s a)) acc' = Some r"
       "r = acc' \<or> r \<in> set ps \<and> sz \<le> size_b (blocks s r)"
       "acc' \<noteq> 0 \<longrightarrow> r \<noteq> 0"
       "(\<exists>b\<in>set ps. sz \<le> size_b (blocks s b)) \<longrightarrow> r \<noteq> 0" by blast
  have "worst_fit_loop s sz p acc = worst_fit_loop s sz (next_free (blocks s a)) acc'"
    unfolding acc'_def using p by (subst worst_fit_loop.simps) simp
  then have "worst_fit_loop s sz p acc = Some r"
    using r(1) by (simp only:)
  moreover have "r = acc \<or> r \<in> set (a # ps) \<and> sz \<le> size_b (blocks s r)"
    using r(2) by (auto simp: acc'_def split: if_splits)
  moreover have "acc \<noteq> 0 \<longrightarrow> r \<noteq> 0"
    using r(3) p by (auto simp: acc'_def split: if_splits)
  moreover have "(\<exists>b\<in>set (a # ps). sz \<le> size_b (blocks s b)) \<longrightarrow> r \<noteq> 0"
    using r(3,4) p by (auto simp: acc'_def split: if_splits)
  ultimately show ?case by blast
qed

lemma search_hit:
  assumes algo: "ALLOCATOR_ALGORITHM E = None \<or> ALLOCATOR_ALGORITHM E = Some ''first_fit''
      \<or> ALLOCATOR_ALGORITHM E = Some ''best_fit'' \<or> ALLOCATOR_ALGORITHM E = Some ''worst_fit''"
    and fl: "free_list s (g_free_list s) ps"
    and fit: "\<exists>b\<in>set ps. sz \<le> size_b (blocks s b)"
  shows "\<exists>r. search E s sz = Some r \<and> r \<noteq> 0 \<and> r \<in> set ps \<and> sz \<le> size_b (blocks s r)"
proof -
  have ff: "\<exists>r. first_fit s sz = Some r \<and> r \<noteq> 0 \<and> r \<in> set ps \<and> sz \<le> size_b (blocks s r)"
    using first_fit_loop_list [OF fl, of sz] fit unfolding first_fit_def by blast
  have bf: "\<exists>r. best_fit s sz = Some r \<and> r \<noteq> 0 \<and> r \<in> set ps \<and> sz \<le> size_b (blocks s r)"
    using best_fit_loop_list [OF fl, of sz 0] fit unfolding best_fit_def by blast
  have wf: "\<exists>r. worst_fit s sz = Some r \<and> r \<noteq> 0 \<and> r \<in> set ps \<and> sz \<le> size_b (blocks s r)"
    using worst_fit_loop_list [OF fl, of sz 0] fit unfolding worst_fit_def by blast
  from algo show ?thesis
  proof (elim disjE)
    assume "ALLOCATOR_ALGORITHM E = None"
    then show ?thesis using ff by (simp add: search_def)
  next
    assume "ALLOCATOR_ALGORITHM E = Some ''first_fit''"
    then show ?thesis using ff by (simp add: search_def)
  next
    assume "ALLOCATOR_ALGORITHM E = Some ''best_fit''"
    then show ?thesis using bf by (simp add: search_def)
  next
    assume "ALLOCATOR_ALGORITHM E = Some ''worst_fit''"
    then show ?thesis using wf by (simp add: search_def)
  qed
qed

lemma split_block_frame:
  assumes "split_block P b t s = (nb, s1)"
  shows "next_free (blocks s1 a) = next_free (blocks s a)"
    and "g_free_list s1 = g_free_list s"
    and "region_list_unchanged s s1"
    and "regions s1 = regions s"
  using assms
  by (auto simp: split_block_def Let_def upd_block_def region_list_unchanged_def
      split: if_splits)

lemma unlink_loop_list:
  assumes r: "r \<noteq> 0"
  shows "free_list s p ps \<Longrightarrow>
    \<exists>s'. unlink_loop r p s = Some s' \<and> region_list_unchanged s s' \<and> regions s' = regions s"
proof (induction ps arbitrary: p s rule: length_induct)
  case (1 ps)
  show ?case
  proof (cases ps)
    case Nil
    with 1(2) have "p = 0" by simp
    then show ?thesis
      by (subst unlink_loop.simps) (simp add: region_list_unchanged_def)
  next
    case (Cons a qs)
    with 1(2) have p: "p = a" "a \<noteq> 0" and tl: "free_list s (next_free (blocks s a)) qs"
      by simp_all
    show ?thesis
    proof (cases "next_free (blocks s a) = r")
      case False
      have "length qs < length ps" using Cons by simp
      with 1(1) tl obtain s' where
        s': "unlink_loop r (next_free (blocks s a)) s = Some s'"
            "region_list_unchanged s s'" "regions s' = regions s" by blast
      have "unlink_loop r p s = unlink_loop r (next_free (blocks s a)) s"
        using p False by (subst unlink_loop.simps) simp
      with s' show ?thesis by simp
    next
      case True
      with tl r obtain rs where qs: "qs = r # rs"
        and tl2: "free_list s (next_free (blocks s r)) rs"
        by (cases qs) auto
      define s1 where "s1 = upd_block a (\<lambda>b. b\<lparr>next_free := next_free (blocks s r)\<rparr>) s"
      have "distinct ps" using 1(2) by (rule free_list_distinct)
      then have "a \<notin> set rs" using Cons qs by simp
      then have "free_list s1 (next_free (blocks s r)) rs = free_list s (next_free (blocks s r)) rs"
        by (intro free_list_frame) (auto simp: s1_def upd_block_def)
      with tl2 have fl1: "free_list s1 (next_free (blocks s r)) rs" by simp
      have "length rs < length ps" using Cons qs by simp
      with 1(1) fl1 obtain s' where
        s': "unlink_loop r (next_free (blocks s r)) s1 = Some s'"
            "region_list_unchanged s1 s'" "regions s' = regions s1" by blast
      have "unlink_loop r p s = unlink_loop r (next_free (blocks s r)) s1"
        using p True unfolding s1_def by (subst unlink_loop.simps) simp
      with s' show ?thesis
        by (simp add: region_list_unchanged_def s1_def upd_block_def)
    qed
  qed
qed

lemma reuse_hit:
  assumes se: "search E s sz = Some b"
    and b: "b \<noteq> 0"
    and fl: "free_list s (g_free_list s) ps"
  shows "\<exists>s'. reuse P E sz s = Some (b, s') \<and> region_list_unchanged s s'
           \<and> regions s' = regions s"
proof -
  obtain nb s1 where sp: "split_block P b (size_b (blocks s b) - sz) s = (nb, s1)"
    by (cases "split_block P b (size_b (blocks s b) - sz) s") auto
  note fr = split_block_frame [OF sp]
  have fl1: "free_list s1 (g_free_list s1) ps"
    using fl fr(1,2) free_list_frame [of ps s1 s "g_free_list s"] by simp
  have "\<exists>s2. (if g_free_list s1 = b
               then Some (s1\<lparr>g_free_list := next_free (blocks s1 (g_free_list s1))\<rparr>)
               else unlink_loop b (g_free_list s1) s1) = Some s2
           \<and> region_list_unchanged s1 s2 \<and> regions s2 = regions s1"
  proof (cases "g_free_list s1 = b")
    case True
    then show ?thesis by (simp add: region_list_unchanged_def)
  next
    case False
    then show ?thesis using unlink_loop_list [OF b fl1] by simp
  qed
  then obtain s2 where
    s2: "(if g_free_list s1 = b
          then Some (s1\<lparr>g_free_list := next_free (blocks s1 (g_free_list s1))\<rparr>)
          else unlink_loop b (g_free_list s1) s1) = Some s2"
        "region_list_unchanged s1 s2" "regions s2 = regions s1" by blast
  define s3 where "s3 = upd_block b (\<lambda>x. x\<lparr>free := 0\<rparr>) (push_split nb s2)"
  have "reuse P E sz s = Some (b, s3)"
    using se b sp s2(1) by (simp add: reuse_def s3_def)
  moreover have "region_list_unchanged s s3 \<and> regions s3 = regions s"
    using fr(3,4) s2(2,3)
    by (simp add: s3_def region_list_unchanged_def upd_block_def push_split_def)
  ultimately show ?thesis by blast
qed

lemma block_ok_mapped:
  assumes ok: "list_all (block_ok P s aligned) ps" and b: "b \<in> set ps"
    and q: "aligned \<le> size_b (blocks s b)"
  shows "mapped P s b (unat (sizeof_mem_block P))" and "mapped P s b (unat aligned)"
proof -
  from ok b have h: "unat (sizeof_mem_block P) \<le> unat (size_b (blocks s b))"
    and m: "mapped P s b (min (unat (size_b (blocks s b)))
                             (unat aligned + unat (sizeof_mem_block P)))"
    by (auto simp: list_all_iff block_ok_def)
  have a: "unat aligned \<le> unat (size_b (blocks s b))" using q by (simp add: word_le_nat_alt)
  show "mapped P s b (unat (sizeof_mem_block P))"
    using m h by (intro mapped_inside [OF m]) simp_all
  show "mapped P s b (unat aligned)"
    using m a by (intro mapped_inside [OF m]) simp_all
qed

text \<open>
  Claim C6: whenever the free list holds a block at least as large as the aligned total of
  the request, \<^verbatim>\<open>allocate\<close> serves the request from the free list and leaves the
  region list unchanged.

  This holds when
  \<^item> \<^verbatim>\<open>ALLOCATOR_ALGORITHM\<close> is unset or names one of the three strategies;
  \<^item> the free list is a chain that ends in \<open>NULL\<close>;
  \<^item> the request plus \<^verbatim>\<open>sizeof(struct mem_region)\<close> plus 7 does not overflow
    \<^verbatim>\<open>size_t\<close>, and a region header is not empty;
  \<^item> the tag is not null and fits the name array of a header with its terminator;
  \<^item> every block of the free list is at least a header long, the bytes of it that the
    call can touch (the first "aligned total plus one header" bytes, or the whole block
    when it is shorter) lie inside a mapping that \<^verbatim>\<open>mmap\<close> returned, no
    \<^verbatim>\<open>munmap\<close> request having taken effect, and no two blocks of the list overlap.

  The call then returns the payload address of a block of the free list that is large
  enough, and the mappings, the region counter and the head and tail of the region list are
  what they were. The header of that block and its first "aligned total" bytes are mapped,
  and the request is less than the aligned total, so the debug fill, which starts one byte
  after the start of the block, stays inside them. The aligned total is what the code
  computes: the request plus \<^verbatim>\<open>sizeof(struct mem_region)\<close>, rounded up to 8.
\<close>

theorem reuse_maps_no_region:
  assumes "ALLOCATOR_ALGORITHM E = None \<or> ALLOCATOR_ALGORITHM E = Some ''first_fit''
      \<or> ALLOCATOR_ALGORITHM E = Some ''best_fit'' \<or> ALLOCATOR_ALGORITHM E = Some ''worst_fit''"
    and "free_list s (g_free_list s) ps"
    and "\<exists>b\<in>set ps. align (sz + sizeof_mem_region P) ALIGN_SZ \<le> size_b (blocks s b)"
    and "0 < unat (sizeof_mem_region P)"
    and "unat sz + unat (sizeof_mem_region P) + 7 < 2 ^ 64"
    and "length tag < unat (sizeof_name P)"
    and "free_blocks_ok P s (align (sz + sizeof_mem_region P) ALIGN_SZ) ps"
  shows "\<exists>b s'. malloc_impl P E mm sz (Some tag) s
                  = Some (Returns (b + sizeof_mem_block P), s')
           \<and> b \<in> set ps
           \<and> align (sz + sizeof_mem_region P) ALIGN_SZ \<le> size_b (blocks s b)
           \<and> region_list_unchanged s s'
           \<and> mapped P s b (unat (sizeof_mem_block P))
           \<and> mapped P s b (unat (align (sz + sizeof_mem_region P) ALIGN_SZ))
           \<and> unat sz < unat (align (sz + sizeof_mem_region P) ALIGN_SZ)"
proof -
  define aligned where "aligned = align (sz + sizeof_mem_region P) ALIGN_SZ"
  from search_hit [OF assms(1,2), of aligned] assms(3)
  obtain b where b: "search E s aligned = Some b" "b \<noteq> 0" "b \<in> set ps"
    "aligned \<le> size_b (blocks s b)" unfolding aligned_def by blast
  from reuse_hit [OF b(1,2) assms(2), of P]
  obtain s1 where s1: "reuse P E aligned s = Some (b, s1)" "region_list_unchanged s s1"
    "regions s1 = regions s" by blast
  define s3 where "s3 =
    (if scribble_check E = 1
     then memset P (b + 1) 0xAA sz (upd_block b (\<lambda>x. x\<lparr>name := tag\<rparr>) s1)
     else upd_block b (\<lambda>x. x\<lparr>name := tag\<rparr>) s1)"
  have "malloc_impl P E mm sz (Some tag) s = Some (Returns (b + sizeof_mem_block P), s3)"
    using s1(1) b(2) by (simp add: malloc_impl_def aligned_def [symmetric] s3_def Let_def)
  moreover have "region_list_unchanged s s3"
    using s1(2) by (simp add: s3_def region_list_unchanged_def memset_def upd_block_def)
  moreover have ok: "list_all (block_ok P s aligned) ps"
    using assms(7) by (simp add: free_blocks_ok_def aligned_def)
  moreover have "mapped P s b (unat (sizeof_mem_block P))" "mapped P s b (unat aligned)"
    using block_ok_mapped [OF ok b(3,4)] by simp_all
  moreover have "unat sz < unat aligned"
  proof -
    have sum: "unat (sz + sizeof_mem_region P) = unat sz + unat (sizeof_mem_region P)"
      using assms(5) by (simp add: unat_word_ariths)
    then have "unat (sz + sizeof_mem_region P) + 7 < 2 ^ 64" using assms(5) by simp
    from align8_bounds(1) [OF this] sum assms(4) show ?thesis
      by (simp add: aligned_def)
  qed
  ultimately show ?thesis using b(3,4) unfolding aligned_def by blast
qed

text \<open>
  The scenario of the specification as an instance: after \<^verbatim>\<open>allocate(100, "x")\<close>
  and the release of its result, the free list is \<open>[0x10050, 0x100C4]\<close>, with blocks of
  116 and 3964 bytes that do not overlap and whose first 152 bytes at most lie inside the
  mapping at \<open>0x10000\<close> (the \<^verbatim>\<open>munmap\<close> request of the release, at \<open>0x1004F\<close>,
  is refused); \<^verbatim>\<open>allocate(50, "y")\<close> under first fit returns the same pointer
  \<open>0x100A0\<close> and the only mapping is still the one at \<open>0x10000\<close>.
\<close>

theorem reuse_after_release_witness:
  "\<exists>s2. run lp64 alloc_release_x init_state = Some ([Returns 0x100A0, Returns 0], s2)
     \<and> ALLOCATOR_ALGORITHM default_env = None
     \<and> free_list s2 (g_free_list s2) [0x10050, 0x100C4]
     \<and> (\<exists>b\<in>set [0x10050, 0x100C4].
           align (50 + sizeof_mem_region lp64) ALIGN_SZ \<le> size_b (blocks s2 b))
     \<and> 0 < unat (sizeof_mem_region lp64)
     \<and> unat (50 :: size_t) + unat (sizeof_mem_region lp64) + 7 < 2 ^ 64
     \<and> length ''y'' < unat (sizeof_name lp64)
     \<and> free_blocks_ok lp64 s2 (align (50 + sizeof_mem_region lp64) ALIGN_SZ) [0x10050, 0x100C4]
     \<and> (\<exists>b s'. malloc_impl lp64 default_env (Some 0x20000) 50 (Some ''y'') s2
                  = Some (Returns (b + sizeof_mem_block lp64), s')
              \<and> b \<in> set [0x10050, 0x100C4]
              \<and> region_list_unchanged s2 s')
     \<and> results (run lp64 (alloc_release_x @
           [(default_env, Allocate 50 (Some ''y'') (Some 0x20000))]) init_state)
         = Some [Returns 0x100A0, Returns 0, Returns 0x100A0]
     \<and> final mmaps (run lp64 (alloc_release_x @
           [(default_env, Allocate 50 (Some ''y'') (Some 0x20000))]) init_state)
         = Some [(0x10000, 0x1000)]"
proof -
  define s2 where "s2 = snd (the (run lp64 alloc_release_x init_state))"
  have run2: "run lp64 alloc_release_x init_state = Some ([Returns 0x100A0, Returns 0], s2)"
    unfolding s2_def by (simp add: run_defs)
  have env: "ALLOCATOR_ALGORITHM default_env = None" by (simp add: default_env_def)
  have fl: "free_list s2 (g_free_list s2) [0x10050, 0x100C4]"
    unfolding s2_def by (simp add: run_defs)
  have fit: "\<exists>b\<in>set [0x10050, 0x100C4].
      align (50 + sizeof_mem_region lp64) ALIGN_SZ \<le> size_b (blocks s2 b)"
    unfolding s2_def by (simp add: run_defs)
  have pl: "0 < unat (sizeof_mem_region lp64)"
    "unat (50 :: size_t) + unat (sizeof_mem_region lp64) + 7 < 2 ^ 64"
    "length ''y'' < unat (sizeof_name lp64)"
    by (simp_all add: lp64_def)
  have ok: "free_blocks_ok lp64 s2 (align (50 + sizeof_mem_region lp64) ALIGN_SZ)
      [0x10050, 0x100C4]"
    unfolding s2_def by (simp add: run_defs)
  have ex: "\<exists>b s'. malloc_impl lp64 default_env (Some 0x20000) 50 (Some ''y'') s2
                  = Some (Returns (b + sizeof_mem_block lp64), s')
              \<and> b \<in> set [0x10050, 0x100C4]
              \<and> region_list_unchanged s2 s'"
    using reuse_maps_no_region [of default_env s2 "[0x10050, 0x100C4]" 50 lp64 "''y''"
        "Some 0x20000"] env fl fit pl ok
    by blast
  have direct: "results (run lp64 (alloc_release_x @
           [(default_env, Allocate 50 (Some ''y'') (Some 0x20000))]) init_state)
         = Some [Returns 0x100A0, Returns 0, Returns 0x100A0]
     \<and> final mmaps (run lp64 (alloc_release_x @
           [(default_env, Allocate 50 (Some ''y'') (Some 0x20000))]) init_state)
         = Some [(0x10000, 0x1000)]"
    by (simp add: run_defs)
  show ?thesis using run2 env fl fit pl ok ex direct by blast
qed

text \<open>
  Without the condition on the strategy the claim fails: with
  \<^verbatim>\<open>ALLOCATOR_ALGORITHM=next_fit\<close> the same free list holds a block of 116 bytes,
  the aligned total of \<^verbatim>\<open>allocate(90, "y")\<close> is 112, and the call maps a second
  region at \<open>0x20000\<close> and returns a pointer into it.
\<close>

theorem unknown_strategy_counterexample:
  "final (is_free_list [0x10050, 0x100C4]) (run lp64 alloc_release_x init_state) = Some True
   \<and> final (size_at 0x10050) (run lp64 alloc_release_x init_state) = Some 116
   \<and> align (90 + sizeof_mem_region lp64) ALIGN_SZ = 112
   \<and> results (run lp64 (alloc_release_x @
          [(next_fit_env, Allocate 90 (Some ''y'') (Some 0x20000))]) init_state)
     = Some [Returns 0x100A0, Returns 0, Returns 0x200A0]
   \<and> final mmaps (run lp64 (alloc_release_x @
          [(next_fit_env, Allocate 90 (Some ''y'') (Some 0x20000))]) init_state)
     = Some [(0x10000, 0x1000), (0x20000, 0x1000)]
   \<and> final g_regions (run lp64 (alloc_release_x @
          [(next_fit_env, Allocate 90 (Some ''y'') (Some 0x20000))]) init_state)
     = Some 2"
  by (simp add: run_defs)

section \<open>Block lengths of a region (claim C7)\<close>

text \<open>
  Claim C7: in every state reached by calls of the four entry points, the block lengths of
  a region add up to its usable length, the blocks do not overlap, and every recorded
  length includes the block header.

  After \<^verbatim>\<open>allocate(100, "x")\<close> on a fresh process the region at \<open>0x10000\<close> has
  a usable length of 4080 bytes and its blocks add up to 4080. The same call with
  \<^verbatim>\<open>ALLOCATOR_SCRIBBLE=1\<close> leaves \<open>0xAAAAAAAAAAAAAAAA\<close> as the recorded length
  of the served block: the fill starts one byte into the block header and runs over it.
  \<^verbatim>\<open>bulk_allocate(1, 100, "x")\<close> with the fill off leaves 0 as the recorded length
  of the free tail at \<open>0x100C4\<close>: the served block is 100 bytes plus a region header
  long, its payload starts a block header after its start, so the zero fill of 100
  payload bytes runs into the header of the next block.
\<close>

theorem fills_break_block_lengths:
  "final mmaps (run lp64 alloc_x init_state) = Some [(0x10000, 0x1000)]
   \<and> usable_length lp64 0x1000 = 4080
   \<and> final (region_sum lp64 0x10000) (run lp64 alloc_x init_state) = Some (Some 4080)
   \<and> final (region_sum lp64 0x10000)
        (run lp64 [(scribble_env, Allocate 100 (Some ''x'') (Some 0x10000))] init_state)
       = Some (Some 12297829382473034410)
   \<and> final (size_at 0x10050)
        (run lp64 [(scribble_env, Allocate 100 (Some ''x'') (Some 0x10000))] init_state)
       = Some 0xAAAAAAAAAAAAAAAA
   \<and> final (region_sum lp64 0x10000)
        (run lp64 [(default_env, Bulk_allocate 1 100 (Some ''x'') (Some 0x10000))] init_state)
       = Some (Some 116)
   \<and> final (size_at 0x100C4)
        (run lp64 [(default_env, Bulk_allocate 1 100 (Some ''x'') (Some 0x10000))] init_state)
       = Some 0"
  by (simp add: run_defs)

section \<open>Alignment (claim C8)\<close>

text \<open>
  Claim C8: for \<open>g > 0\<close>, \<^verbatim>\<open>align(s, g)\<close> is the smallest multiple of \<open>g\<close>
  that is at least \<open>s\<close>, also in \<^verbatim>\<open>size_t\<close> arithmetic.

  In \<^verbatim>\<open>size_t\<close> arithmetic this holds exactly when that multiple is less than
  \<open>2\<^sup>6\<^sup>4\<close>: the result is then a multiple of \<open>g\<close>, at least \<open>s\<close>, less than
  \<open>s + g\<close>, and no multiple of \<open>g\<close> between \<open>s\<close> and it is smaller. For every
  \<open>s\<close> and \<open>g > 0\<close> whose multiple is \<open>2\<^sup>6\<^sup>4\<close> or more, the addition wraps around:
  the result is that multiple minus \<open>2\<^sup>6\<^sup>4\<close>, which is less than \<open>s\<close>.
\<close>

theorem align_smallest_multiple:
  assumes "g \<noteq> 0"
  shows "(((unat s + unat g - 1) div unat g) * unat g < 2 ^ 64 \<longrightarrow>
            align s g mod g = 0 \<and> s \<le> align s g \<and> unat (align s g) < unat s + unat g
          \<and> unat (align s g) = ((unat s + unat g - 1) div unat g) * unat g
          \<and> (\<forall>m. m mod g = 0 \<and> s \<le> m \<longrightarrow> align s g \<le> m))
       \<and> (2 ^ 64 \<le> ((unat s + unat g - 1) div unat g) * unat g \<longrightarrow>
            align s g < s
          \<and> unat (align s g) = ((unat s + unat g - 1) div unat g) * unat g - 2 ^ 64)"
proof (intro conjI impI)
  assume fits: "((unat s + unat g - 1) div unat g) * unat g < 2 ^ 64"
  define n where "n = unat s"
  define k where "k = unat g"
  define r where "r = ((n + k - 1) div k) * k"
  have kpos: "0 < k" using assms(1) by (simp add: k_def unat_gt_0)
  have r: "unat (align s g) = r"
    using align_unat [OF assms fits] by (simp add: r_def n_def k_def)
  have rmod: "r mod k = 0" by (simp add: r_def)
  have rge: "n \<le> r"
  proof (cases "n mod k = 0")
    case True
    then have "(n div k) * k = n" by (metis div_mult_mod_eq add.right_neutral)
    moreover have "(n + k - 1) div k = n div k" using kpos True by (rule ceil_exact)
    ultimately show ?thesis by (simp add: r_def)
  next
    case False
    have "n = (n div k) * k + n mod k" by simp
    moreover have "n mod k < k" using kpos by simp
    ultimately have "n < (n div k + 1) * k"
      by (metis add_less_cancel_left mult.commute mult_Suc_right Suc_eq_plus1 add.commute)
    moreover have "(n + k - 1) div k = n div k + 1" using kpos False by (rule ceil_up)
    ultimately show ?thesis by (simp add: r_def)
  qed
  have rlt: "r < n + k"
  proof -
    have a: "((n + k - 1) div k) * k \<le> n + k - 1" by simp
    have b: "n + k - 1 < n + k" using kpos by simp
    show ?thesis unfolding r_def using a b by (rule le_less_trans)
  qed
  have least: "\<And>j. j mod k = 0 \<Longrightarrow> n \<le> j \<Longrightarrow> r \<le> j"
  proof -
    fix j assume j: "j mod k = 0" "n \<le> j"
    then obtain q where q: "j = q * k" by (metis mod_0_imp_dvd dvd_def mult.commute)
    have "(n + k - 1) div k \<le> (q * k + k - 1) div k"
      using j q by (intro div_le_mono) simp
    also have "(q * k + k - 1) div k = q"
      using kpos ceil_exact [of k "q * k"] by simp
    finally show "r \<le> j" using q by (simp add: r_def)
  qed
  show "align s g mod g = 0"
    using rmod r by (metis k_def unat_mod unat_eq_zero)
  show "s \<le> align s g"
    using rge r by (simp add: word_le_nat_alt n_def)
  show "unat (align s g) < unat s + unat g"
    using rlt r by (simp add: n_def k_def)
  show "unat (align s g) = ((unat s + unat g - 1) div unat g) * unat g"
    using r by (simp add: r_def n_def k_def)
  show "\<forall>m. m mod g = 0 \<and> s \<le> m \<longrightarrow> align s g \<le> m"
  proof (intro allI impI)
    fix m assume m: "m mod g = 0 \<and> s \<le> m"
    then have "unat m mod k = 0" by (metis k_def unat_mod unat_0)
    moreover have "n \<le> unat m" using m by (simp add: word_le_nat_alt n_def)
    ultimately have "r \<le> unat m" by (rule least)
    then show "align s g \<le> m" using r by (simp add: word_le_nat_alt)
  qed
next
  assume "2 ^ 64 \<le> ((unat s + unat g - 1) div unat g) * unat g"
  then show "align s g < s" using assms by (intro align_wraps(2))
next
  assume "2 ^ 64 \<le> ((unat s + unat g - 1) div unat g) * unat g"
  then show "unat (align s g) = ((unat s + unat g - 1) div unat g) * unat g - 2 ^ 64"
    using assms by (intro align_wraps(1))
qed

text \<open>
  Two instances: \<^verbatim>\<open>align(100, 8) = 104\<close>, and for \<open>s = 2\<^sup>6\<^sup>4 - 1\<close>, where the
  multiple is \<open>2\<^sup>6\<^sup>4\<close>, the result is less than \<open>s\<close>.
\<close>

theorem align_witness:
  "(8 :: size_t) \<noteq> 0
   \<and> ((unat (100 :: size_t) + unat (8 :: size_t) - 1) div unat (8 :: size_t))
        * unat (8 :: size_t) < 2 ^ 64
   \<and> align 100 8 = 104 \<and> align 100 8 mod 8 = 0 \<and> (100 :: size_t) \<le> align 100 8
   \<and> (2 :: nat) ^ 64 \<le> ((unat (0xFFFFFFFFFFFFFFFF :: size_t) + unat (8 :: size_t) - 1)
                       div unat (8 :: size_t)) * unat (8 :: size_t)
   \<and> align 0xFFFFFFFFFFFFFFFF 8 < 0xFFFFFFFFFFFFFFFF"
  using align_smallest_multiple [of 8 100] align_smallest_multiple [of 8 "0xFFFFFFFFFFFFFFFF"]
  by (simp add: align_def)

text \<open>
  Where the multiple does not fit, the addition wraps around:
  \<^verbatim>\<open>align(2\<^sup>6\<^sup>4 - 1, 8)\<close> is 0, which is less than \<open>s\<close>.
\<close>

theorem align_counterexample:
  "align 0xFFFFFFFFFFFFFFFF 8 = 0 \<and> \<not> (0xFFFFFFFFFFFFFFFF :: size_t) \<le> align 0xFFFFFFFFFFFFFFFF 8"
  by (simp add: align_def)

section \<open>The debug fill (claim C9)\<close>

text \<open>
  Claim C9: with the debug fill on, a successful \<^verbatim>\<open>allocate\<close> writes the sentinel
  over exactly the served payload, from the returned address on, and leaves the header of
  the block as it was, on the path through the free list and on the path through a new
  region.

  New region: \<^verbatim>\<open>allocate(100, "x")\<close> returns \<open>0x100A0\<close> for the block at
  \<open>0x10050\<close>. Without the fill its header holds sequence number 0, size 116, used,
  next block \<open>0x100C4\<close>. With the fill every one of these fields holds sentinel bytes
  (the sequence number all but its first byte), and the last payload byte, at
  \<open>0x10103\<close>, is not filled. Free list: after the release, \<^verbatim>\<open>allocate(50, "y")\<close>
  returns \<open>0x100A0\<close> again; with the fill on, the sequence number, the size and the
  free flag of the header hold sentinel bytes, and the first payload byte, at the
  returned address, is not filled. In both places the fill starts at
  \<^verbatim>\<open>(void*) block + 1\<close>, one byte after the start of the header.
\<close>

theorem scribble_overwrites_header:
  "results (run lp64 [(scribble_env, Allocate 100 (Some ''x'') (Some 0x10000))] init_state)
     = Some [Returns 0x100A0]
   \<and> final (header_at 0x10050) (run lp64 alloc_x init_state) =
        Some \<lparr> block_number = 0, name = ''x'', size_b = 0x74, free = 0,
               prev_block = 0, next_block = 0x100C4, next_free = 0 \<rparr>
   \<and> final (header_at 0x10050)
        (run lp64 [(scribble_env, Allocate 100 (Some ''x'') (Some 0x10000))] init_state) =
        Some \<lparr> block_number = 0xAAAAAAAAAAAAAA00, name = ''x'', size_b = 0xAAAAAAAAAAAAAAAA,
               free = 0xAA, prev_block = 0xAAAAAAAAAAAAAAAA,
               next_block = 0xAAAAAAAAAAAAAAAA, next_free = 0xAAAAAAAAAAAAAAAA \<rparr>
   \<and> final (byte_at 0x10103)
        (run lp64 [(scribble_env, Allocate 100 (Some ''x'') (Some 0x10000))] init_state)
       = Some 0
   \<and> results (run lp64 (alloc_release_x @
          [(scribble_env, Allocate 50 (Some ''y'') (Some 0x20000))]) init_state)
     = Some [Returns 0x100A0, Returns 0, Returns 0x100A0]
   \<and> final (header_at 0x10050) (run lp64 (alloc_release_x @
          [(default_env, Allocate 50 (Some ''y'') (Some 0x20000))]) init_state) =
        Some \<lparr> block_number = 0, name = ''y'', size_b = 0x74, free = 0,
               prev_block = 0, next_block = 0x100C4, next_free = 0x100C4 \<rparr>
   \<and> final (header_at 0x10050) (run lp64 (alloc_release_x @
          [(scribble_env, Allocate 50 (Some ''y'') (Some 0x20000))]) init_state) =
        Some \<lparr> block_number = 0xAAAAAAAAAAAAAA00, name = ''y'', size_b = 0xAAAAAAAAAAAAAAAA,
               free = 0xAA, prev_block = 0, next_block = 0x100C4, next_free = 0x100C4 \<rparr>
   \<and> final (byte_at 0x100A0) (run lp64 (alloc_release_x @
          [(scribble_env, Allocate 50 (Some ''y'') (Some 0x20000))]) init_state)
       = Some 0"
  by (simp add: run_defs)

section \<open>An unrecognised strategy name (claim C10)\<close>

lemma search_unrecognised:
  assumes "ALLOCATOR_ALGORITHM E = Some a"
    and "a \<noteq> ''first_fit''" and "a \<noteq> ''best_fit''" and "a \<noteq> ''worst_fit''"
  shows "search E s sz = Some 0"
  using assms by (simp add: search_def)

lemma upd_block_sel:
  "mmaps (upd_block p f s) = mmaps s"
  "munmaps (upd_block p f s) = munmaps s"
  "g_regions (upd_block p f s) = g_regions s"
  "g_allocations (upd_block p f s) = g_allocations s"
  "g_region_head (upd_block p f s) = g_region_head s"
  "g_region_tail (upd_block p f s) = g_region_tail s"
  "g_free_list (upd_block p f s) = g_free_list s"
  "regions (upd_block p f s) = regions s"
  by (simp_all add: upd_block_def)

lemma upd_region_sel:
  "mmaps (upd_region p f s) = mmaps s"
  "g_regions (upd_region p f s) = g_regions s"
  "g_region_head (upd_region p f s) = g_region_head s"
  "g_region_tail (upd_region p f s) = g_region_tail s"
  "g_free_list (upd_region p f s) = g_free_list s"
  by (simp_all add: upd_region_def)

lemma mmap_fresh_sel:
  "mmaps (mmap_fresh base len s) = mmaps s @ [(base, len)]"
  "g_regions (mmap_fresh base len s) = g_regions s"
  "g_region_head (mmap_fresh base len s) = g_region_head s"
  "g_region_tail (mmap_fresh base len s) = g_region_tail s"
  "g_free_list (mmap_fresh base len s) = g_free_list s"
  by (simp_all add: mmap_fresh_def)

lemma memset_sel:
  "mmaps (memset P dst v n s) = mmaps s"
  "g_regions (memset P dst v n s) = g_regions s"
  "g_region_head (memset P dst v n s) = g_region_head s"
  "g_region_tail (memset P dst v n s) = g_region_tail s"
  "g_free_list (memset P dst v n s) = g_free_list s"
  by (simp_all add: memset_def)

lemma split_block_sel:
  "mmaps (snd (split_block P b t s)) = mmaps s"
  "g_regions (snd (split_block P b t s)) = g_regions s"
  "g_region_head (snd (split_block P b t s)) = g_region_head s"
  "g_region_tail (snd (split_block P b t s)) = g_region_tail s"
  "g_free_list (snd (split_block P b t s)) = g_free_list s"
  "regions (snd (split_block P b t s)) = regions s"
  by (simp_all add: split_block_def Let_def upd_block_sel)

lemma new_region_maps:
  "mmaps (snd (new_region P E region map_sz actual_sz aligned_sz nm s))
     = mmaps s @ [(region, map_sz)]"
  "g_regions (snd (new_region P E region map_sz actual_sz aligned_sz nm s)) = g_regions s + 1"
  "g_region_tail (snd (new_region P E region map_sz actual_sz aligned_sz nm s)) = region"
  by (simp_all add: new_region_def Let_def case_prod_unfold upd_block_sel upd_region_sel
      mmap_fresh_sel memset_sel split_block_sel split: option.splits)

text \<open>
  Claim C10: when \<^verbatim>\<open>ALLOCATOR_ALGORITHM\<close> names none of the three strategies, the
  search returns no candidate whatever the free list holds, so every \<^verbatim>\<open>allocate\<close>
  takes the path through \<^verbatim>\<open>mmap\<close>.

  For every state and request: the search and \<^verbatim>\<open>reuse\<close> return null and change
  nothing; if \<^verbatim>\<open>mmap\<close> answers with a region, the call records exactly that
  mapping (of the page-aligned size the code computes) and counts one region more; if
  \<^verbatim>\<open>mmap\<close> fails, the call returns null and changes nothing.
\<close>

theorem unrecognised_strategy_maps_region:
  assumes "ALLOCATOR_ALGORITHM E = Some a"
    and "a \<noteq> ''first_fit''" and "a \<noteq> ''best_fit''" and "a \<noteq> ''worst_fit''"
  shows "search E s sz = Some 0
       \<and> reuse P E sz s = Some (0, s)
       \<and> malloc_impl P E None n nm s = Some (Returns 0, s)
       \<and> (\<exists>out s'. malloc_impl P E (Some region) n nm s = Some (out, s')
             \<and> mmaps s' = mmaps s @
                 [(region, align (align (n + sizeof_mem_region P) ALIGN_SZ + sizeof_mem_region P)
                             (pagesize P))]
             \<and> g_regions s' = g_regions s + 1
             \<and> g_region_tail s' = region)"
proof -
  have se: "\<And>k. search E s k = Some 0" using assms by (rule search_unrecognised)
  then have re: "\<And>k. reuse P E k s = Some (0, s)" by (simp add: reuse_def)
  have none: "malloc_impl P E None n nm s = Some (Returns 0, s)"
    by (simp add: malloc_impl_def re Let_def)
  have some: "malloc_impl P E (Some region) n nm s =
      Some (new_region P E region
        (align (align (n + sizeof_mem_region P) ALIGN_SZ + sizeof_mem_region P) (pagesize P))
        (n + sizeof_mem_region P) (align (n + sizeof_mem_region P) ALIGN_SZ) nm s)"
    by (simp add: malloc_impl_def re Let_def)
  obtain out s' where pair:
    "new_region P E region
        (align (align (n + sizeof_mem_region P) ALIGN_SZ + sizeof_mem_region P) (pagesize P))
        (n + sizeof_mem_region P) (align (n + sizeof_mem_region P) ALIGN_SZ) nm s = (out, s')"
    by (meson surj_pair)
  have "mmaps s' = mmaps s @
          [(region, align (align (n + sizeof_mem_region P) ALIGN_SZ + sizeof_mem_region P)
                      (pagesize P))]
      \<and> g_regions s' = g_regions s + 1 \<and> g_region_tail s' = region"
    using new_region_maps [of P E region
        "align (align (n + sizeof_mem_region P) ALIGN_SZ + sizeof_mem_region P) (pagesize P)"
        "n + sizeof_mem_region P" "align (n + sizeof_mem_region P) ALIGN_SZ" nm s]
    by (simp add: pair)
  then show ?thesis
    using se re none unfolding some pair by simp
qed

text \<open>
  An instance with a free list that could serve the request: after
  \<^verbatim>\<open>allocate(100, "x")\<close> and its release the free list holds blocks of 116 and
  3964 bytes; with \<^verbatim>\<open>ALLOCATOR_ALGORITHM=next_fit\<close> a request whose aligned total
  is 112 finds none of them and maps 4096 bytes at \<open>0x20000\<close>.
\<close>

theorem unrecognised_strategy_witness:
  "\<exists>s2. run lp64 alloc_release_x init_state = Some ([Returns 0x100A0, Returns 0], s2)
     \<and> ALLOCATOR_ALGORITHM next_fit_env = Some ''next_fit''
     \<and> ''next_fit'' \<noteq> ''first_fit'' \<and> ''next_fit'' \<noteq> ''best_fit''
     \<and> ''next_fit'' \<noteq> ''worst_fit''
     \<and> free_list s2 (g_free_list s2) [0x10050, 0x100C4]
     \<and> search next_fit_env s2 112 = Some 0
     \<and> reuse lp64 next_fit_env 112 s2 = Some (0, s2)
     \<and> malloc_impl lp64 next_fit_env None 90 (Some ''y'') s2 = Some (Returns 0, s2)
     \<and> (\<exists>out s'. malloc_impl lp64 next_fit_env (Some 0x20000) 90 (Some ''y'') s2
                    = Some (out, s')
              \<and> mmaps s' = mmaps s2 @ [(0x20000, 0x1000)]
              \<and> g_regions s' = g_regions s2 + 1)"
proof -
  define s2 where "s2 = snd (the (run lp64 alloc_release_x init_state))"
  have run2: "run lp64 alloc_release_x init_state = Some ([Returns 0x100A0, Returns 0], s2)"
    unfolding s2_def by (simp add: run_defs)
  have env: "ALLOCATOR_ALGORITHM next_fit_env = Some ''next_fit''"
    by (simp add: next_fit_env_def)
  have ne: "''next_fit'' \<noteq> ''first_fit''" "''next_fit'' \<noteq> ''best_fit''"
    "''next_fit'' \<noteq> ''worst_fit''" by simp_all
  have fl: "free_list s2 (g_free_list s2) [0x10050, 0x100C4]"
    unfolding s2_def by (simp add: run_defs)
  have sz: "align (align (90 + sizeof_mem_region lp64) ALIGN_SZ + sizeof_mem_region lp64)
      (pagesize lp64) = 0x1000"
    by (simp add: lp64_def align_def ALIGN_SZ_def)
  show ?thesis
    using unrecognised_strategy_maps_region [OF env ne, of s2 112 lp64 90 "Some ''y''" "0x20000"]
      run2 env ne fl unfolding sz by blast
qed

end
